theory Spec2Isabelle
  imports Complex_Main "HOL-Library.Word"
begin

section \<open>Values, exceptions and effects\<close>

text \<open>
  The program is one Python script, \<^verbatim>\<open>app.py\<close>: a text extractor, an analysis client with
  a retry loop, and a presenter, glued together by a top-level pipeline.

  A Python \<^verbatim>\<open>str\<close> is modelled as a \<^typ>\<open>string\<close> in which every \<^typ>\<open>char\<close> stands for one
  code point, so \<^const>\<open>length\<close> and \<^const>\<open>take\<close> count what Python's \<^verbatim>\<open>len\<close> and slicing
  count. Only code points below 256 are represented.

  A decoded JSON document is a value of \<open>json\<close>. Python's \<^verbatim>\<open>None\<close> is \<open>JNull\<close>:
  \<^verbatim>\<open>json.loads("null")\<close> and \<^verbatim>\<open>return None\<close> give the same object. A number, \<^verbatim>\<open>int\<close> or
  \<^verbatim>\<open>float\<close>, is a \<open>JNum\<close>: the script only tests numbers for truth. A Python \<^verbatim>\<open>dict\<close> is the
  list of its items, one per key, looked up with \<^const>\<open>map_of\<close>.
\<close>

datatype json =
    JNull
  | JBool bool
  | JNum real
  | JStr string
  | JArr "json list"
  | JObj "(string \<times> json) list"

text \<open>
  The exception classes the script meets. \<open>RequestException\<close> carries the text of the
  exception, which the script prints. \<open>JSONDecodeError\<close> is \<^verbatim>\<open>json.JSONDecodeError\<close>;
  \<open>ValueError\<close> is a \<^verbatim>\<open>ValueError\<close> that is not a \<^verbatim>\<open>json.JSONDecodeError\<close>.
\<close>

datatype py_exception =
    KeyError
  | IndexError
  | TypeError
  | AttributeError
  | JSONDecodeError
  | RecursionError
  | ValueError
  | RequestException string

text \<open>A computation either raises (\<open>Inl\<close>) or returns (\<open>Inr\<close>).\<close>

type_synonym 'a result = "py_exception + 'a"

definition bind_result :: "'a result \<Rightarrow> ('a \<Rightarrow> 'b result) \<Rightarrow> 'b result" where
  "bind_result r f = (case r of Inl e \<Rightarrow> Inl e | Inr v \<Rightarrow> f v)"

text \<open>
  Everything the script does to the outside world is logged, in order, as an event: calls
  into the PDF library, HTTP requests, sleeps, and the Streamlit calls that draw the page.
\<close>

datatype event =
    Doc_open
  | Doc_close
  | Http_post string "(string \<times> string) list" json
  | Sleep nat
  | St_title string
  | St_markdown string
  | St_error string
  | St_warning string
  | St_success string
  | St_divider
  | St_subheader string
  | St_write json
  | St_write_bold json
  | St_write_html string
  | St_columns nat
  | St_info nat json

type_synonym bytes = "8 word list"

text \<open>
  The collaborators, which are not part of the repository:
  \<^item> \<open>fitz_open\<close>: PyMuPDF on the uploaded bytes. \<open>Inl msg\<close>: \<^verbatim>\<open>fitz.open\<close> (or reading the
    upload) raised an exception whose text is \<open>msg\<close>. \<open>Inr pages\<close>: the document opened;
    page \<open>n\<close> is \<open>Inl msg\<close> when \<^verbatim>\<open>load_page(n)\<close> or \<^verbatim>\<open>get_text()\<close> raises, and \<open>Inr t\<close>
    when its text is \<open>t\<close>.
  \<^item> \<open>requests_post\<close>: what \<^verbatim>\<open>requests.post\<close> does in attempt \<open>i\<close> when given a payload, see
    \<open>post_outcome\<close> below.
  \<^item> \<open>json_loads\<close>: what \<^verbatim>\<open>json.loads\<close> does on a string, see \<open>decoded\<close> below.
\<close>

text \<open>
  Python's JSON decoder on a text. It returns the decoded value, or it raises: a
  \<^verbatim>\<open>json.JSONDecodeError\<close> with a message when the text is not JSON, a \<^verbatim>\<open>RecursionError\<close> when
  the document is nested too deep, a plain \<^verbatim>\<open>ValueError\<close> when an integer literal has more
  digits than the interpreter converts.
\<close>

datatype decoded =
    Decoded json
  | Not_json string
  | Recursion_error
  | Value_error

text \<open>
  An HTTP response as the script reads it: its status code, the message of the
  \<^verbatim>\<open>HTTPError\<close> that \<^verbatim>\<open>raise_for_status\<close> builds from the status, the reason and the URL, and
  what the JSON decoder does on its body.
\<close>

record response =
  status_code :: nat
  http_error_msg :: string
  json_body :: decoded

text \<open>
  \<open>Post_raises msg\<close>: \<^verbatim>\<open>requests.post\<close> raised a \<^verbatim>\<open>requests.exceptions.RequestException\<close>
  whose text is \<open>msg\<close>, a connection error or a timeout. \<open>Http_response response\<close>: it
  returned \<open>response\<close>.
\<close>

datatype post_outcome =
    Post_raises string
  | Http_response response

record env =
  fitz_open :: "bytes \<Rightarrow> string + (string + string) list"
  requests_post :: "nat \<Rightarrow> json \<Rightarrow> post_outcome"
  json_loads :: "string \<Rightarrow> decoded"

section \<open>Python's operations on decoded JSON\<close>

text \<open>Truth value of an object, as \<^verbatim>\<open>if x:\<close> tests it.\<close>

fun truthy :: "json \<Rightarrow> bool" where
  "truthy JNull = False"
| "truthy (JBool b) = b"
| "truthy (JNum n) = (n \<noteq> 0)"
| "truthy (JStr s) = (s \<noteq> [])"
| "truthy (JArr xs) = (xs \<noteq> [])"
| "truthy (JObj kvs) = (kvs \<noteq> [])"

fun starts_with :: "string \<Rightarrow> string \<Rightarrow> bool" where
  "starts_with s [] = True"
| "starts_with [] (p # ps) = False"
| "starts_with (c # cs) (p # ps) = (c = p \<and> starts_with cs ps)"

fun substring_of :: "string \<Rightarrow> string \<Rightarrow> bool" where
  "substring_of p [] = (p = [])"
| "substring_of p (c # cs) = (starts_with (c # cs) p \<or> substring_of p cs)"

text \<open>
  \<^verbatim>\<open>key in x\<close> for a string \<open>key\<close>: a key of a dict, an element of a list, a substring of a
  string; \<^verbatim>\<open>TypeError\<close> on the objects that are not containers.
\<close>

fun py_in :: "string \<Rightarrow> json \<Rightarrow> bool result" where
  "py_in key (JObj kvs) = Inr (map_of kvs key \<noteq> None)"
| "py_in key (JArr xs) = Inr (List.member xs (JStr key))"
| "py_in key (JStr s) = Inr (substring_of key s)"
| "py_in key JNull = Inl TypeError"
| "py_in key (JBool b) = Inl TypeError"
| "py_in key (JNum n) = Inl TypeError"

text \<open>\<^verbatim>\<open>x[key]\<close> for a string \<open>key\<close>: only a dict can be indexed by a string.\<close>

fun subscript_key :: "json \<Rightarrow> string \<Rightarrow> json result" where
  "subscript_key (JObj kvs) key = (case map_of kvs key of None \<Rightarrow> Inl KeyError | Some v \<Rightarrow> Inr v)"
| "subscript_key (JArr xs) key = Inl TypeError"
| "subscript_key (JStr s) key = Inl TypeError"
| "subscript_key JNull key = Inl TypeError"
| "subscript_key (JBool b) key = Inl TypeError"
| "subscript_key (JNum n) key = Inl TypeError"

text \<open>
  \<^verbatim>\<open>x[0]\<close>: the first element of a list or the first character of a string, \<^verbatim>\<open>IndexError\<close>
  when there is none; a dict decoded from JSON has string keys only, so \<open>0\<close> is never
  among them.
\<close>

fun subscript_0 :: "json \<Rightarrow> json result" where
  "subscript_0 (JArr []) = Inl IndexError"
| "subscript_0 (JArr (x # xs)) = Inr x"
| "subscript_0 (JStr []) = Inl IndexError"
| "subscript_0 (JStr (c # cs)) = Inr (JStr [c])"
| "subscript_0 (JObj kvs) = Inl KeyError"
| "subscript_0 JNull = Inl TypeError"
| "subscript_0 (JBool b) = Inl TypeError"
| "subscript_0 (JNum n) = Inl TypeError"

text \<open>
  \<^verbatim>\<open>json.loads(x)\<close>: \<open>x\<close> must be a string, and the decoder returns or raises as \<open>loads\<close>
  says.
\<close>

fun py_json_loads :: "(string \<Rightarrow> decoded) \<Rightarrow> json \<Rightarrow> json result" where
  "py_json_loads loads (JStr s) =
     (case loads s of
        Decoded v \<Rightarrow> Inr v
      | Not_json msg \<Rightarrow> Inl JSONDecodeError
      | Recursion_error \<Rightarrow> Inl RecursionError
      | Value_error \<Rightarrow> Inl ValueError)"
| "py_json_loads loads v = Inl TypeError"

text \<open>\<^verbatim>\<open>d.get(key, dflt)\<close>: a method of dicts only.\<close>

fun py_get :: "json \<Rightarrow> string \<Rightarrow> json \<Rightarrow> json result" where
  "py_get (JObj kvs) key dflt = Inr (case map_of kvs key of None \<Rightarrow> dflt | Some v \<Rightarrow> v)"
| "py_get v key dflt = Inl AttributeError"

text \<open>\<^verbatim>\<open>len(x)\<close> and the elements \<^verbatim>\<open>enumerate(x)\<close> runs through.\<close>

fun py_iter :: "json \<Rightarrow> json list result" where
  "py_iter (JArr xs) = Inr xs"
| "py_iter (JStr s) = Inr (map (\<lambda>c. JStr [c]) s)"
| "py_iter (JObj kvs) = Inr (map (\<lambda>kv. JStr (fst kv)) kvs)"
| "py_iter v = Inl TypeError"

definition py_len :: "json \<Rightarrow> nat result" where
  "py_len v = bind_result (py_iter v) (\<lambda>xs. Inr (length xs))"

text \<open>
  \<^verbatim>\<open>str.isspace\<close>, \<^verbatim>\<open>str.strip()\<close> and \<^verbatim>\<open>str.lower()\<close> on code points below 256: the white
  space is TAB to CR, FS to US, the space, NEL and the no-break space; the upper-case
  letters are A to Z and the Latin-1 letters U+00C0 to U+00DE without the multiplication
  sign, each 32 below its lower-case letter.
\<close>

definition py_isspace :: "char \<Rightarrow> bool" where
  "py_isspace c = (let n = (of_char c :: nat) in
     (9 \<le> n \<and> n \<le> 13) \<or> (28 \<le> n \<and> n \<le> 32) \<or> n = 133 \<or> n = 160)"

definition py_strip :: "string \<Rightarrow> string" where
  "py_strip s = rev (dropWhile py_isspace (rev (dropWhile py_isspace s)))"

definition py_lower_char :: "char \<Rightarrow> char" where
  "py_lower_char c = (let n = (of_char c :: nat) in
     if (65 \<le> n \<and> n \<le> 90) \<or> (192 \<le> n \<and> n \<le> 222 \<and> n \<noteq> 215)
     then char_of (n + 32) else c)"

definition py_lower :: "string \<Rightarrow> string" where
  "py_lower s = map py_lower_char s"

section \<open>Running statements: a result and the events so far\<close>

text \<open>
  A piece of the script yields its result together with the events it caused. When a
  statement raises, the statements after it do not run, and the events that already
  happened stay.
\<close>

type_synonym 'a io = "'a result \<times> event list"

definition emit :: "event list \<Rightarrow> unit io" where
  "emit evs = (Inr (), evs)"

definition io_bind :: "'a io \<Rightarrow> ('a \<Rightarrow> 'b io) \<Rightarrow> 'b io" where
  "io_bind m f =
     (case m of
        (Inl e, evs) \<Rightarrow> (Inl e, evs)
      | (Inr v, evs) \<Rightarrow> (case f v of (r, evs') \<Rightarrow> (r, evs @ evs')))"

section \<open>The text extractor\<close>

text \<open>
  \<^verbatim>\<open>
  def extract_text_from_pdf(pdf_file):
      try:
          pdf_document = fitz.open(stream=pdf_file.read(), filetype="pdf")
          text = ""
          for page_num in range(len(pdf_document)):
              page = pdf_document.load_page(page_num)
              text += page.get_text()
          pdf_document.close()
          return text
      except Exception as e:
          st.error(f"Error reading PDF file: {e}")
          return None
  \<close>
  \<open>read_pages\<close> is the loop over the pages; it stops at the first page that raises.
  \<open>extract_try\<close> is the \<^verbatim>\<open>try\<close> block, \<open>Inl msg\<close> standing for the exception it raised; the
  handle is closed by the statement after the loop only.
\<close>

fun read_pages :: "(string + string) list \<Rightarrow> string \<Rightarrow> string + string" where
  "read_pages [] text = Inr text"
| "read_pages (Inl msg # pages) text = Inl msg"
| "read_pages (Inr t # pages) text = read_pages pages (text @ t)"

definition extract_try :: "env \<Rightarrow> bytes \<Rightarrow> (string + string) \<times> event list" where
  "extract_try env pdf_file =
     (case fitz_open env pdf_file of
        Inl msg \<Rightarrow> (Inl msg, [])
      | Inr pdf_document \<Rightarrow>
          (case read_pages pdf_document [] of
             Inl msg \<Rightarrow> (Inl msg, [Doc_open])
           | Inr text \<Rightarrow> (Inr text, [Doc_open, Doc_close])))"

definition extract_text_from_pdf :: "env \<Rightarrow> bytes \<Rightarrow> string option io" where
  "extract_text_from_pdf env pdf_file =
     (case extract_try env pdf_file of
        (Inr text, evs) \<Rightarrow> (Inr (Some text), evs)
      | (Inl msg, evs) \<Rightarrow> (Inr None, evs @ [St_error (''Error reading PDF file: '' @ msg)]))"

section \<open>The analysis client\<close>

text \<open>
  The source hard-codes a non-empty API key; the model takes the key as a parameter
  \<open>api_key\<close>, so that the credential is not repeated here.
\<close>

definition API_URL :: "string \<Rightarrow> string" where
  "API_URL api_key =
     ''https://generativelanguage.googleapis.com/v1beta/models/gemini-2.5-flash-preview-05-20:generateContent?key=''
     @ api_key"

text \<open>
  The f-string of the prompt: \<open>instruction\<close> is its text up to and including the opening
  double quote, then come the truncated text and the closing double quote.
\<close>

definition instruction :: string where
  "instruction =
     ''Analyze the following text from a document. Provide a concise summary, extract 5-7 key topics or keywords, determine the overall sentiment (e.g., Positive, Negative, Neutral), and identify the language of the text.''
     @ [CHR 0x0A, CHR 0x0A] @ ''Text: '' @ [CHR 0x22]"

definition prompt :: "string \<Rightarrow> string" where
  "prompt truncated_text = instruction @ truncated_text @ [CHR 0x22]"

definition response_schema :: json where
  "response_schema = JObj [
     (''type'', JStr ''OBJECT''),
     (''properties'', JObj [
        (''summary'', JObj [
           (''type'', JStr ''STRING''),
           (''description'', JStr ''A concise summary of the text.'')]),
        (''keywords'', JObj [
           (''type'', JStr ''ARRAY''),
           (''items'', JObj [(''type'', JStr ''STRING'')]),
           (''description'', JStr ''An array of 5 to 7 key topics or keywords.'')]),
        (''sentiment'', JObj [
           (''type'', JStr ''STRING''),
           (''description'', JStr ''The overall sentiment (e.g., Positive, Negative, Neutral).'')]),
        (''language'', JObj [
           (''type'', JStr ''STRING''),
           (''description'', JStr ''The detected language of the text.'')])]),
     (''required'', JArr [JStr ''summary'', JStr ''keywords'', JStr ''sentiment'', JStr ''language''])]"

text \<open>\<^verbatim>\<open>truncated_text = text[:15000]\<close>, then the dict \<^verbatim>\<open>payload\<close>.\<close>

definition payload :: "string \<Rightarrow> json" where
  "payload text =
     (let truncated_text = take 15000 text in
      JObj [
        (''contents'', JArr [JObj [(''parts'', JArr [JObj [(''text'', JStr (prompt truncated_text))]])]]),
        (''generationConfig'', JObj [
           (''responseMimeType'', JStr ''application/json''),
           (''responseSchema'', response_schema)])])"

definition headers :: "(string \<times> string) list" where
  "headers = [(''Content-Type'', ''application/json'')]"

text \<open>\<^verbatim>\<open>result["candidates"][0]["content"]["parts"][0]["text"]\<close>, left to right.\<close>

definition first_part_text :: "json \<Rightarrow> json result" where
  "first_part_text result =
     bind_result (subscript_key result ''candidates'') (\<lambda>candidates.
     bind_result (subscript_0 candidates) (\<lambda>candidate.
     bind_result (subscript_key candidate ''content'') (\<lambda>content.
     bind_result (subscript_key content ''parts'') (\<lambda>parts.
     bind_result (subscript_0 parts) (\<lambda>part.
     subscript_key part ''text'')))))"

definition unexpected_response :: string where
  "unexpected_response =
     ''The AI model returned an unexpected response. It might be due to safety filters or other issues.''"

definition parse_failure :: string where
  "parse_failure =
     ''Failed to parse the AI model'' @ [CHR 0x27] @ ''s response. The format was unexpected.''"

definition connect_failure :: "string \<Rightarrow> string" where
  "connect_failure msg = ''Failed to connect to the AI model after several retries: '' @ msg"

text \<open>
  The statements of the \<^verbatim>\<open>try\<close> block after \<^verbatim>\<open>result = response.json()\<close>:
  \<^verbatim>\<open>
  if "candidates" in result and result["candidates"][0]["content"]["parts"][0]["text"]:
      return json.loads(result["candidates"][0]["content"]["parts"][0]["text"])
  else:
      st.error("The AI model returned an unexpected response. ...")
      return None
  \<close>
  \<open>Inr v\<close> is \<^verbatim>\<open>return v\<close>; the block never falls through.
\<close>

definition inspect_result :: "(string \<Rightarrow> decoded) \<Rightarrow> json \<Rightarrow> json io" where
  "inspect_result loads result =
     (case bind_result (py_in ''candidates'' result) (\<lambda>has_candidates.
             if has_candidates then bind_result (first_part_text result) (\<lambda>t. Inr (truthy t))
             else Inr False) of
        Inl e \<Rightarrow> (Inl e, [])
      | Inr True \<Rightarrow> (bind_result (first_part_text result) (py_json_loads loads), [])
      | Inr False \<Rightarrow> (Inr JNull, [St_error unexpected_response]))"

text \<open>
  \<^verbatim>\<open>response.raise_for_status()\<close> raises an \<^verbatim>\<open>HTTPError\<close>, which is a \<^verbatim>\<open>RequestException\<close>,
  for a status code 4xx or 5xx, and returns for every other status code.
\<close>

definition raise_for_status :: "response \<Rightarrow> unit result" where
  "raise_for_status response =
     (if 400 \<le> status_code response \<and> status_code response < 600
      then Inl (RequestException (http_error_msg response))
      else Inr ())"

text \<open>
  \<^verbatim>\<open>response.json()\<close> runs the decoder on the body and raises its \<^verbatim>\<open>json.JSONDecodeError\<close> again
  as a \<^verbatim>\<open>requests.exceptions.JSONDecodeError\<close>, which is a \<^verbatim>\<open>RequestException\<close> and is
  caught by the first handler; the other exceptions of the decoder pass through.
\<close>

definition response_json :: "response \<Rightarrow> json result" where
  "response_json response =
     (case json_body response of
        Decoded result \<Rightarrow> Inr result
      | Not_json msg \<Rightarrow> Inl (RequestException msg)
      | Recursion_error \<Rightarrow> Inl RecursionError
      | Value_error \<Rightarrow> Inl ValueError)"

text \<open>
  The first three statements of the \<^verbatim>\<open>try\<close> block of attempt \<open>i\<close>:
  \<^verbatim>\<open>
  response = requests.post(API_URL, headers=headers, data=json.dumps(payload))
  response.raise_for_status() # Raise an exception for bad status codes (4xx or 5xx)
  result = response.json()
  \<close>
\<close>

definition requests_calls :: "env \<Rightarrow> json \<Rightarrow> nat \<Rightarrow> json result" where
  "requests_calls env pl i =
     (case requests_post env i pl of
        Post_raises msg \<Rightarrow> Inl (RequestException msg)
      | Http_response response \<Rightarrow>
          bind_result (raise_for_status response) (\<lambda>_. response_json response))"

text \<open>The \<^verbatim>\<open>try\<close> block of attempt \<open>i\<close>: the request, then the inspection of the result.\<close>

definition attempt :: "string \<Rightarrow> env \<Rightarrow> json \<Rightarrow> nat \<Rightarrow> json io" where
  "attempt api_key env pl i =
     (case requests_calls env pl i of
        Inl e \<Rightarrow> (Inl e, [Http_post (API_URL api_key) headers pl])
      | Inr result \<Rightarrow>
          (case inspect_result (json_loads env) result of
             (r, evs) \<Rightarrow> (r, Http_post (API_URL api_key) headers pl # evs)))"

text \<open>
  One round of the \<^verbatim>\<open>for\<close> loop, that is the \<^verbatim>\<open>try\<close> statement with its handlers:
  \<^verbatim>\<open>
  except requests.exceptions.RequestException as e:
      if i < 2:
          time.sleep(2 ** i) # Wait 1s, 2s
      else:
          st.error(f"Failed to connect to the AI model after several retries: {e}")
          return None
  except (KeyError, IndexError, json.JSONDecodeError):
       st.error("Failed to parse the AI model's response. The format was unexpected.")
       return None
  \<close>
  An exception of another class is not handled and leaves the function: \<^verbatim>\<open>TypeError\<close>,
  \<^verbatim>\<open>AttributeError\<close>, \<^verbatim>\<open>RecursionError\<close>, and a \<^verbatim>\<open>ValueError\<close> that is not a
  \<^verbatim>\<open>json.JSONDecodeError\<close>.
\<close>

datatype control = Continue | Return "json result"

definition loop_body :: "string \<Rightarrow> env \<Rightarrow> json \<Rightarrow> nat \<Rightarrow> control \<times> event list" where
  "loop_body api_key env pl i =
     (case attempt api_key env pl i of
        (Inr v, evs) \<Rightarrow> (Return (Inr v), evs)
      | (Inl e, evs) \<Rightarrow>
          (case e of
             RequestException msg \<Rightarrow>
               if i < 2 then (Continue, evs @ [Sleep (2 ^ i)])
               else (Return (Inr JNull), evs @ [St_error (connect_failure msg)])
           | KeyError \<Rightarrow> (Return (Inr JNull), evs @ [St_error parse_failure])
           | IndexError \<Rightarrow> (Return (Inr JNull), evs @ [St_error parse_failure])
           | JSONDecodeError \<Rightarrow> (Return (Inr JNull), evs @ [St_error parse_failure])
           | TypeError \<Rightarrow> (Return (Inl TypeError), evs)
           | AttributeError \<Rightarrow> (Return (Inl AttributeError), evs)
           | RecursionError \<Rightarrow> (Return (Inl RecursionError), evs)
           | ValueError \<Rightarrow> (Return (Inl ValueError), evs)))"

text \<open>\<^verbatim>\<open>for i in range(3): ...\<close> from \<open>i\<close> on, and the \<^verbatim>\<open>return None\<close> after the loop.\<close>

function for_loop :: "string \<Rightarrow> env \<Rightarrow> json \<Rightarrow> nat \<Rightarrow> json io" where
  "for_loop api_key env pl i =
     (if i < 3 then
        (case loop_body api_key env pl i of
           (Return r, evs) \<Rightarrow> (r, evs)
         | (Continue, evs) \<Rightarrow>
             (case for_loop api_key env pl (Suc i) of (r, evs') \<Rightarrow> (r, evs @ evs')))
      else (Inr JNull, []))"
  by pat_completeness auto
termination
  by (relation "measure (\<lambda>(api_key, env, pl, i). 3 - i)") auto

declare for_loop.simps [simp del]

definition analyze_text_with_gemini :: "string \<Rightarrow> env \<Rightarrow> string \<Rightarrow> json io" where
  "analyze_text_with_gemini api_key env text = for_loop api_key env (payload text) 0"

section \<open>The presenter and the pipeline\<close>

text \<open>
  The keywords branch:
  \<^verbatim>\<open>
  keywords = analysis_result.get("keywords", [])
  if keywords:
      num_keywords = len(keywords)
      cols = st.columns(num_keywords if num_keywords > 0 else 1)
      for i, keyword in enumerate(keywords):
          with cols[i]:
              st.info(keyword)
  else:
      st.write("No keywords were extracted.")
  \<close>
  \<open>St_info i keyword\<close> is \<^verbatim>\<open>st.info(keyword)\<close> inside column \<open>i\<close>.
\<close>

definition show_keywords :: "json \<Rightarrow> unit io" where
  "show_keywords keywords =
     (if truthy keywords then
        (case py_len keywords of
           Inl e \<Rightarrow> (Inl e, [])
         | Inr num_keywords \<Rightarrow>
             (case py_iter keywords of
                Inl e \<Rightarrow> (Inl e, [St_columns (if 0 < num_keywords then num_keywords else 1)])
              | Inr ks \<Rightarrow>
                  emit (St_columns (if 0 < num_keywords then num_keywords else 1)
                        # map (\<lambda>(i, keyword). St_info i keyword) (List.enumerate 0 ks))))
      else emit [St_write (JStr ''No keywords were extracted.'')])"

text \<open>
  The sentiment branch; \<^verbatim>\<open>.lower()\<close> is a method of strings only.
  \<^verbatim>\<open>
  if sentiment.lower() == 'positive':
      st.write(f"**<p style='color:green;'>{sentiment}</p>**", unsafe_allow_html=True)
  elif sentiment.lower() == 'negative':
      st.write(f"**<p style='color:red;'>{sentiment}</p>**", unsafe_allow_html=True)
  else:
      st.write(f"**<p style='color:orange;'>{sentiment}</p>**", unsafe_allow_html=True)
  \<close>
\<close>

definition sentiment_color :: "string \<Rightarrow> string" where
  "sentiment_color sentiment =
     (if py_lower sentiment = ''positive'' then ''green''
      else if py_lower sentiment = ''negative'' then ''red''
      else ''orange'')"

definition colored_html :: "string \<Rightarrow> string \<Rightarrow> string" where
  "colored_html color sentiment =
     ''**<p style='' @ [CHR 0x27] @ ''color:'' @ color @ '';'' @ [CHR 0x27] @ ''>''
     @ sentiment @ ''</p>**''"

definition show_sentiment :: "json \<Rightarrow> unit io" where
  "show_sentiment sentiment =
     (case sentiment of
        JStr s \<Rightarrow> emit [St_write_html (colored_html (sentiment_color s) s)]
      | _ \<Rightarrow> (Inl AttributeError, []))"

text \<open>
  Step 3 of the pipeline, the display of a result (the emoji of the subheaders are left
  out). \<open>St_write_bold v\<close> is \<^verbatim>\<open>st.write(f"**{v}**")\<close>.
\<close>

definition present :: "json \<Rightarrow> unit io" where
  "present analysis_result =
     io_bind (emit [St_success ''Analysis Complete!'', St_divider, St_subheader ''Summary'']) (\<lambda>_.
     io_bind (py_get analysis_result ''summary'' (JStr ''No summary available.''), []) (\<lambda>summary.
     io_bind (emit [St_write summary, St_subheader ''Key Topics'']) (\<lambda>_.
     io_bind (py_get analysis_result ''keywords'' (JArr []), []) (\<lambda>keywords.
     io_bind (show_keywords keywords) (\<lambda>_.
     io_bind (emit [St_divider, St_columns 2, St_subheader ''Language'']) (\<lambda>_.
     io_bind (py_get analysis_result ''language'' (JStr ''N/A''), []) (\<lambda>language.
     io_bind (emit [St_write_bold language, St_subheader ''Sentiment'']) (\<lambda>_.
     io_bind (py_get analysis_result ''sentiment'' (JStr ''N/A''), []) (\<lambda>sentiment.
     show_sentiment sentiment)))))))))"

definition insufficient_text :: string where
  "insufficient_text =
     ''Could not extract enough text from the PDF. The document might be image-based, empty, or corrupted.''"

text \<open>
  The body of \<^verbatim>\<open>if uploaded_file is not None:\<close>
  \<^verbatim>\<open>
  document_text = extract_text_from_pdf(uploaded_file)
  if document_text and len(document_text.strip()) > 50:
      analysis_result = analyze_text_with_gemini(document_text)
      if analysis_result:
          ...
  else:
      st.warning("Could not extract enough text from the PDF. ...")
  \<close>
  \<open>display_results\<close> is the statement \<^verbatim>\<open>if analysis_result: ...\<close>, which shows nothing for a
  result that is \<^verbatim>\<open>None\<close> or empty.
\<close>

definition enough_text :: "string option \<Rightarrow> bool" where
  "enough_text document_text =
     (case document_text of
        None \<Rightarrow> False
      | Some t \<Rightarrow> t \<noteq> [] \<and> 50 < length (py_strip t))"

definition display_results :: "json \<Rightarrow> unit io" where
  "display_results analysis_result =
     (if truthy analysis_result then present analysis_result else emit [])"

definition handle_upload :: "string \<Rightarrow> env \<Rightarrow> bytes \<Rightarrow> unit io" where
  "handle_upload api_key env uploaded_file =
     io_bind (extract_text_from_pdf env uploaded_file) (\<lambda>document_text.
       case document_text of
         Some t \<Rightarrow>
           if enough_text document_text then
             io_bind (analyze_text_with_gemini api_key env t) display_results
           else emit [St_warning insufficient_text]
       | None \<Rightarrow> emit [St_warning insufficient_text])"

text \<open>
  The script from \<^verbatim>\<open>st.title\<close> on; \<open>uploaded_file\<close> is what \<^verbatim>\<open>st.file_uploader\<close> returns. The
  configuration of the page and the spinner are left out.
\<close>

definition app :: "string \<Rightarrow> env \<Rightarrow> bytes option \<Rightarrow> unit io" where
  "app api_key env uploaded_file =
     io_bind (emit [St_title ''PDF Analysis Tool'',
                    St_markdown ''Upload a PDF to get an AI-powered summary, key topics, and sentiment analysis.'']) (\<lambda>_.
       if api_key = [] then
         emit [St_error ''Gemini API Key is not configured. Please add it to your Streamlit secrets.'']
       else
         (case uploaded_file of
            None \<Rightarrow> emit []
          | Some f \<Rightarrow> handle_upload api_key env f))"

section \<open>Vocabulary of the statements\<close>

text \<open>The request every attempt sends, and the kinds of events.\<close>

definition request :: "string \<Rightarrow> string \<Rightarrow> event" where
  "request api_key text = Http_post (API_URL api_key) headers (payload text)"

fun is_http_post :: "event \<Rightarrow> bool" where
  "is_http_post (Http_post url hs pl) = True"
| "is_http_post e = False"

fun is_sleep :: "event \<Rightarrow> bool" where
  "is_sleep (Sleep n) = True"
| "is_sleep e = False"

fun is_st_error :: "event \<Rightarrow> bool" where
  "is_st_error (St_error msg) = True"
| "is_st_error e = False"

text \<open>
  A transport-level failure of an attempt: \<^verbatim>\<open>requests.post\<close> raised (a connection error, a
  timeout), or the response has a status code 4xx or 5xx. \<open>failure_text\<close> is the text of the
  exception the attempt then raises.
\<close>

fun transport_failure :: "post_outcome \<Rightarrow> bool" where
  "transport_failure (Post_raises msg) = True"
| "transport_failure (Http_response response) =
     (400 \<le> status_code response \<and> status_code response < 600)"

fun failure_text :: "post_outcome \<Rightarrow> string" where
  "failure_text (Post_raises msg) = msg"
| "failure_text (Http_response response) = http_error_msg response"

text \<open>
  What the three calls of an attempt came to: \<open>is_retried\<close> when they raised a
  \<^verbatim>\<open>RequestException\<close>, \<open>is_response\<close> when all three returned, that is a response whose status
  is not an error and whose body parsed as JSON.
\<close>

fun is_retried :: "json result \<Rightarrow> bool" where
  "is_retried (Inl (RequestException msg)) = True"
| "is_retried r = False"

fun is_response :: "json result \<Rightarrow> bool" where
  "is_response (Inr result) = True"
| "is_response (Inl e) = False"

text \<open>The events of \<open>n\<close> attempts that failed and were retried: request \<open>i\<close>, then a sleep of \<open>2 ^ i\<close>.\<close>

definition backoff :: "event \<Rightarrow> nat \<Rightarrow> event list" where
  "backoff rq n = concat (map (\<lambda>i. [rq, Sleep (2 ^ i)]) [0..<n])"

text \<open>How many of the attempts 0 and 1 are retried in a row from the start.\<close>

definition leading_failures :: "env \<Rightarrow> json \<Rightarrow> nat" where
  "leading_failures env pl =
     (if \<not> is_retried (requests_calls env pl 0) then 0
      else if \<not> is_retried (requests_calls env pl 1) then 1
      else 2)"

text \<open>Two strings are equal up to case when they agree character by character after lowering.\<close>

definition caseless_eq :: "string \<Rightarrow> string \<Rightarrow> bool" where
  "caseless_eq s t = list_all2 (\<lambda>a b. py_lower_char a = py_lower_char b) s t"

text \<open>
  The JSON types of the response of the API, every field being optional: an object whose
  \<open>candidates\<close> is an array of objects, whose \<open>content\<close> is an object, whose \<open>parts\<close> is an
  array of objects, whose \<open>text\<close> is a string or null. Only the first candidate and its first
  part are constrained, since the client reads nothing else.
\<close>

fun typed_part :: "json \<Rightarrow> bool" where
  "typed_part (JObj part) =
     (case map_of part ''text'' of
        None \<Rightarrow> True
      | Some JNull \<Rightarrow> True
      | Some (JStr s) \<Rightarrow> True
      | Some v \<Rightarrow> False)"
| "typed_part v = False"

fun typed_parts :: "json \<Rightarrow> bool" where
  "typed_parts (JArr []) = True"
| "typed_parts (JArr (part # parts)) = typed_part part"
| "typed_parts v = False"

fun typed_content :: "json \<Rightarrow> bool" where
  "typed_content (JObj content) =
     (case map_of content ''parts'' of None \<Rightarrow> True | Some parts \<Rightarrow> typed_parts parts)"
| "typed_content v = False"

fun typed_candidate :: "json \<Rightarrow> bool" where
  "typed_candidate (JObj candidate) =
     (case map_of candidate ''content'' of None \<Rightarrow> True | Some content \<Rightarrow> typed_content content)"
| "typed_candidate v = False"

fun typed_candidates :: "json \<Rightarrow> bool" where
  "typed_candidates (JArr []) = True"
| "typed_candidates (JArr (candidate # candidates)) = typed_candidate candidate"
| "typed_candidates v = False"

fun typed_response :: "json \<Rightarrow> bool" where
  "typed_response (JObj result) =
     (case map_of result ''candidates'' of
        None \<Rightarrow> True
      | Some candidates \<Rightarrow> typed_candidates candidates)"
| "typed_response v = False"



section \<open>Concrete situations\<close>

text \<open>A response of the expected shape around the text \<open>s\<close>, and a result with its four fields.\<close>

definition good_response :: "string \<Rightarrow> json" where
  "good_response s =
     JObj [(''candidates'', JArr [JObj [
              (''content'', JObj [(''parts'', JArr [JObj [(''text'', JStr s)]]), (''role'', JStr ''model'')]),
              (''finishReason'', JStr ''STOP'')]])]"

definition sample_result :: json where
  "sample_result = JObj [
     (''summary'', JStr ''A note on tides.''),
     (''keywords'', JArr [JStr ''tide'', JStr ''moon'', JStr ''coast'']),
     (''sentiment'', JStr ''Neutral''),
     (''language'', JStr ''English'')]"

definition sample_text :: string where
  \<open>sample_text = ''{"summary": "A note on tides.", "keywords": ["tide", "moon", "coast"], "sentiment": "Neutral", "language": "English"}''\<close>

text \<open>
  A text of 100000 opening brackets, on which the decoder raises \<^verbatim>\<open>RecursionError\<close>, and the
  decoder on the texts of these situations.
\<close>

definition nested_text :: string where
  "nested_text = replicate 100000 CHR ''[''"

definition sample_loads :: "string \<Rightarrow> decoded" where
  "sample_loads s =
     (if s = sample_text then Decoded sample_result
      else if s = ''{}'' then Decoded (JObj [])
      else if s = nested_text then Recursion_error
      else Not_json ''Expecting value'')"

text \<open>A response with status 200 and the body \<open>result\<close>, and one with an error status.\<close>

definition ok :: "json \<Rightarrow> post_outcome" where
  "ok result = Http_response \<lparr>status_code = 200, http_error_msg = [], json_body = Decoded result\<rparr>"

definition unavailable :: post_outcome where
  "unavailable =
     Http_response \<lparr>status_code = 503,
                    http_error_msg = ''503 Server Error: Service Unavailable for url'',
                    json_body = Not_json ''Expecting value''\<rparr>"

text \<open>An environment whose document has one page of text and whose server answers by \<open>replies\<close>.\<close>

definition env_of :: "(nat \<Rightarrow> post_outcome) \<Rightarrow> env" where
  "env_of replies =
     \<lparr>fitz_open = (\<lambda>b. Inr [Inr (replicate 60 CHR ''x'')]),
      requests_post = (\<lambda>i pl. replies i),
      json_loads = sample_loads\<rparr>"

text \<open>
  Servers: two time-outs then a good response; a time-out, a status 503, then a good
  response; always down; always a status 503; a good body under the status 300; and
  defective responses under the status 200.
\<close>

definition flaky :: "nat \<Rightarrow> post_outcome" where
  "flaky i = (if i < 2 then Post_raises ''timed out'' else ok (good_response sample_text))"

definition busy :: "nat \<Rightarrow> post_outcome" where
  "busy i =
     (if i = 0 then Post_raises ''timed out''
      else if i = 1 then unavailable
      else ok (good_response sample_text))"

definition down :: "nat \<Rightarrow> post_outcome" where
  "down i = Post_raises ''connection refused''"

definition always_unavailable :: "nat \<Rightarrow> post_outcome" where
  "always_unavailable i = unavailable"

definition multiple_choices :: "nat \<Rightarrow> post_outcome" where
  "multiple_choices i =
     Http_response \<lparr>status_code = 300, http_error_msg = [],
                    json_body = Decoded (good_response sample_text)\<rparr>"

definition empty_candidates_second :: "nat \<Rightarrow> post_outcome" where
  "empty_candidates_second i =
     (if i < 1 then Post_raises ''timed out''
      else ok (JObj [(''candidates'', JArr [])]))"

definition blocked_prompt :: "nat \<Rightarrow> post_outcome" where
  "blocked_prompt i =
     ok (JObj [(''promptFeedback'', JObj [(''blockReason'', JStr ''SAFETY'')])])"

definition null_candidates :: "nat \<Rightarrow> post_outcome" where
  "null_candidates i = ok (JObj [(''candidates'', JNull)])"

definition null_content :: "nat \<Rightarrow> post_outcome" where
  "null_content i =
     ok (JObj [(''candidates'', JArr [JObj [(''content'', JNull), (''finishReason'', JStr ''SAFETY'')]])])"

definition nested_inner_json :: "nat \<Rightarrow> post_outcome" where
  "nested_inner_json i = ok (good_response nested_text)"


text \<open>Documents: one that does not open, one with too little text, one whose only page cannot be read.\<close>

definition env_of_pdf :: "(string + (string + string) list) \<Rightarrow> env" where
  "env_of_pdf doc =
     \<lparr>fitz_open = (\<lambda>b. doc),
      requests_post = (\<lambda>i pl. ok (good_response sample_text)),
      json_loads = sample_loads\<rparr>"

definition not_a_pdf :: "string + (string + string) list" where
  "not_a_pdf = Inl ''Failed to open stream''"

definition short_pdf :: "string + (string + string) list" where
  "short_pdf = Inr [Inr ''  Page 1 '', Inr [CHR 0x0A]]"

definition unreadable_page_pdf :: "string + (string + string) list" where
  "unreadable_page_pdf = Inr [Inl ''document closed or encrypted'']"

definition second_page_fails_pdf :: "string + (string + string) list" where
  "second_page_fails_pdf = Inr [Inr ''Page 1'', Inl ''cannot load page'', Inr ''Page 3'']"

definition pdf_bytes :: bytes where
  "pdf_bytes = [0x25, 0x50, 0x44, 0x46, 0x2D]"

definition long_text :: string where
  "long_text = replicate 15000 CHR ''a'' @ ''bcd''"

definition other_long_text :: string where
  "other_long_text = replicate 15000 CHR ''a'' @ ''a different ending''"


section \<open>Facts about the retry loop\<close>

lemma for_loop_step:
  "i < 3 \<Longrightarrow> for_loop k e p i =
     (case loop_body k e p i of
        (Return r, evs) \<Rightarrow> (r, evs)
      | (Continue, evs) \<Rightarrow> (case for_loop k e p (Suc i) of (r, evs') \<Rightarrow> (r, evs @ evs')))"
  by (subst for_loop.simps) simp

text \<open>The three calls of an attempt, read off the outcome of the request.\<close>

lemma requests_calls_transport_failure:
  "transport_failure (requests_post env i pl) \<Longrightarrow>
   requests_calls env pl i = Inl (RequestException (failure_text (requests_post env i pl)))"
  by (cases "requests_post env i pl")
     (simp_all add: requests_calls_def raise_for_status_def bind_result_def)

lemma requests_calls_response:
  "requests_post env i pl = Http_response response \<Longrightarrow>
   \<not> (400 \<le> status_code response \<and> status_code response < 600) \<Longrightarrow>
   json_body response = Decoded result \<Longrightarrow>
   requests_calls env pl i = Inr result"
  by (simp add: requests_calls_def raise_for_status_def response_json_def bind_result_def)

lemma requests_calls_ok:
  "requests_post env i pl = ok result \<Longrightarrow> requests_calls env pl i = Inr result"
  by (simp add: ok_def requests_calls_def raise_for_status_def response_json_def bind_result_def)

lemma requests_calls_raises:
  "requests_calls env pl i = Inl e \<Longrightarrow>
   (\<exists>m. e = RequestException m) \<or> e = RecursionError \<or> e = ValueError"
  by (auto simp: requests_calls_def raise_for_status_def response_json_def bind_result_def
      split: post_outcome.splits decoded.splits if_splits)

lemma is_retried_iff: "is_retried x \<longleftrightarrow> (\<exists>m. x = Inl (RequestException m))"
proof (cases x)
  case (Inl e)
  then show ?thesis by (cases e) simp_all
next
  case (Inr v)
  then show ?thesis by simp
qed

lemma transport_failure_retried:
  "transport_failure (requests_post env i pl) \<Longrightarrow> is_retried (requests_calls env pl i)"
  by (simp add: requests_calls_transport_failure)

lemma loop_body_exception:
  "requests_calls env pl i = Inl (RequestException msg) \<Longrightarrow>
   loop_body k env pl i =
     (if i < 2 then (Continue, [Http_post (API_URL k) headers pl, Sleep (2 ^ i)])
      else (Return (Inr JNull), [Http_post (API_URL k) headers pl, St_error (connect_failure msg)]))"
  by (simp add: loop_body_def attempt_def)

lemma loop_body_passes:
  "requests_calls env pl i = Inl e \<Longrightarrow> e = RecursionError \<or> e = ValueError \<Longrightarrow>
   loop_body k env pl i = (Return (Inl e), [Http_post (API_URL k) headers pl])"
  by (auto simp: loop_body_def attempt_def)

text \<open>The exceptions the inspection of a result can raise, and what it can return.\<close>

lemma py_in_raises: "py_in key v = Inl e \<Longrightarrow> e = TypeError"
  by (cases v) auto

lemma subscript_key_raises: "subscript_key v key = Inl e \<Longrightarrow> e = KeyError \<or> e = TypeError"
  by (cases v) (auto split: option.splits)

lemma subscript_0_raises:
  "subscript_0 v = Inl e \<Longrightarrow> e = IndexError \<or> e = KeyError \<or> e = TypeError"
  by (cases v rule: subscript_0.cases) auto

lemma py_json_loads_raises:
  "py_json_loads loads v = Inl e \<Longrightarrow>
   e = JSONDecodeError \<or> e = TypeError \<or> e = RecursionError \<or> e = ValueError"
  by (cases v) (auto split: decoded.splits)

lemma bind_result_Inl:
  "bind_result r f = Inl e \<Longrightarrow> r = Inl e \<or> (\<exists>v. r = Inr v \<and> f v = Inl e)"
  by (cases r) (auto simp: bind_result_def)

lemma first_part_text_raises:
  "first_part_text result = Inl e \<Longrightarrow> e = KeyError \<or> e = IndexError \<or> e = TypeError"
  unfolding first_part_text_def
  by (auto dest!: bind_result_Inl dest: subscript_key_raises subscript_0_raises)

lemma py_json_loads_Inr:
  "py_json_loads loads t = Inr v \<Longrightarrow> \<exists>s. t = JStr s \<and> loads s = Decoded v"
  by (cases t) (auto split: decoded.splits)

lemma py_json_loads_not_a_string: "\<forall>s. t \<noteq> JStr s \<Longrightarrow> py_json_loads loads t = Inl TypeError"
  by (cases t) simp_all

lemma inspect_result_cases:
  "inspect_result loads result = (Inr JNull, [St_error unexpected_response])
   \<or> (\<exists>e. inspect_result loads result = (Inl e, [])
          \<and> (e = KeyError \<or> e = IndexError \<or> e = TypeError))
   \<or> (\<exists>s. first_part_text result = Inr (JStr s) \<and> s \<noteq> []
          \<and> inspect_result loads result = (py_json_loads loads (JStr s), []))"
proof (cases "py_in ''candidates'' result")
  case (Inl e)
  then show ?thesis
    by (auto simp: inspect_result_def bind_result_def dest: py_in_raises)
next
  case (Inr has)
  show ?thesis
  proof (cases has)
    case False
    with Inr show ?thesis by (simp add: inspect_result_def bind_result_def)
  next
    case True
    show ?thesis
    proof (cases "first_part_text result")
      case (Inl e)
      with Inr True first_part_text_raises [OF Inl] show ?thesis
        by (auto simp: inspect_result_def bind_result_def)
    next
      case t: (Inr t)
      show ?thesis
      proof (cases "truthy t")
        case False
        with Inr True t show ?thesis by (simp add: inspect_result_def bind_result_def)
      next
        case truthy: True
        show ?thesis
        proof (cases "\<exists>s. t = JStr s")
          case True
          then obtain s where s: "t = JStr s" by blast
          with truthy have "s \<noteq> []" by simp
          moreover have "inspect_result loads result = (py_json_loads loads (JStr s), [])"
            using Inr \<open>has\<close> t truthy s by (simp add: inspect_result_def bind_result_def)
          ultimately show ?thesis using t s by blast
        next
          case False
          then have "py_json_loads loads t = Inl TypeError"
            by (simp add: py_json_loads_not_a_string)
          then have "inspect_result loads result = (Inl TypeError, [])"
            using Inr \<open>has\<close> t truthy by (simp add: inspect_result_def bind_result_def)
          then show ?thesis by simp
        qed
      qed
    qed
  qed
qed

lemma inspect_result_raises:
  assumes "inspect_result loads result = (Inl e, evs)"
  shows "evs = [] \<and> (e = KeyError \<or> e = IndexError \<or> e = TypeError \<or> e = JSONDecodeError
           \<or> e = RecursionError \<or> e = ValueError)"
proof -
  from inspect_result_cases [of loads result] consider
      (unexpected) "inspect_result loads result = (Inr JNull, [St_error unexpected_response])"
    | (raises) e' where "inspect_result loads result = (Inl e', [])"
        "e' = KeyError \<or> e' = IndexError \<or> e' = TypeError"
    | (in_part) s where "first_part_text result = Inr (JStr s)" "s \<noteq> []"
        "inspect_result loads result = (py_json_loads loads (JStr s), [])"
    by blast
  then show ?thesis
  proof cases
    case unexpected
    with assms show ?thesis by simp
  next
    case raises
    with assms show ?thesis by auto
  next
    case in_part
    with assms have "py_json_loads loads (JStr s) = Inl e" and "evs = []" by simp_all
    with py_json_loads_raises [of loads "JStr s" e] show ?thesis by blast
  qed
qed

lemma inspect_result_returns:
  assumes "inspect_result loads result = (Inr v, evs)"
  shows "(v = JNull \<and> evs = [St_error unexpected_response])
       \<or> (evs = [] \<and> (\<exists>s. first_part_text result = Inr (JStr s) \<and> s \<noteq> [] \<and> loads s = Decoded v))"
proof -
  from inspect_result_cases [of loads result] consider
      (unexpected) "inspect_result loads result = (Inr JNull, [St_error unexpected_response])"
    | (raises) e' where "inspect_result loads result = (Inl e', [])"
        "e' = KeyError \<or> e' = IndexError \<or> e' = TypeError"
    | (in_part) s where "first_part_text result = Inr (JStr s)" "s \<noteq> []"
        "inspect_result loads result = (py_json_loads loads (JStr s), [])"
    by blast
  then show ?thesis
  proof cases
    case unexpected
    with assms show ?thesis by simp
  next
    case raises
    with assms show ?thesis by simp
  next
    case in_part
    with assms have "py_json_loads loads (JStr s) = Inr v" and "evs = []" by simp_all
    with py_json_loads_Inr [of loads "JStr s" v] in_part show ?thesis by auto
  qed
qed

lemma first_part_text_has_candidates:
  "first_part_text result = Inr t \<Longrightarrow> py_in ''candidates'' result = Inr True"
  by (cases result) (auto simp: first_part_text_def bind_result_def split: option.splits)

lemma inspect_result_text:
  "first_part_text result = Inr (JStr s) \<Longrightarrow> s \<noteq> [] \<Longrightarrow>
   inspect_result loads result = (py_json_loads loads (JStr s), [])"
  by (simp add: inspect_result_def first_part_text_has_candidates bind_result_def)

lemma inspect_result_ok:
  "first_part_text result = Inr (JStr s) \<Longrightarrow> s \<noteq> [] \<Longrightarrow> loads s = Decoded v \<Longrightarrow>
   inspect_result loads result = (Inr v, [])"
  by (simp add: inspect_result_text)

lemma first_part_text_good_response: "first_part_text (good_response s) = Inr (JStr s)"
  by (simp add: good_response_def first_part_text_def bind_result_def)

text \<open>A result of the response's JSON types never raises \<^verbatim>\<open>TypeError\<close>.\<close>

lemma typed_part_text:
  "typed_part p \<Longrightarrow>
   subscript_key p ''text'' = Inl KeyError \<or> subscript_key p ''text'' = Inr JNull
   \<or> (\<exists>s. subscript_key p ''text'' = Inr (JStr s))"
  by (cases p) (auto split: option.splits json.splits)

lemma typed_parts_first:
  "typed_parts ps \<Longrightarrow>
   subscript_0 ps = Inl IndexError \<or> (\<exists>p. subscript_0 ps = Inr p \<and> typed_part p)"
  by (cases ps rule: typed_parts.cases) auto

lemma typed_content_parts:
  "typed_content c \<Longrightarrow>
   subscript_key c ''parts'' = Inl KeyError
   \<or> (\<exists>ps. subscript_key c ''parts'' = Inr ps \<and> typed_parts ps)"
  by (cases c) (auto split: option.splits)

lemma typed_candidate_content:
  "typed_candidate c \<Longrightarrow>
   subscript_key c ''content'' = Inl KeyError
   \<or> (\<exists>ct. subscript_key c ''content'' = Inr ct \<and> typed_content ct)"
  by (cases c) (auto split: option.splits)

lemma typed_candidates_first:
  "typed_candidates cs \<Longrightarrow>
   subscript_0 cs = Inl IndexError \<or> (\<exists>c. subscript_0 cs = Inr c \<and> typed_candidate c)"
  by (cases cs rule: typed_candidates.cases) auto

lemma typed_response_candidates:
  "typed_response r \<Longrightarrow>
   py_in ''candidates'' r = Inr False
   \<or> (py_in ''candidates'' r = Inr True
       \<and> (\<exists>cs. subscript_key r ''candidates'' = Inr cs \<and> typed_candidates cs))"
  by (cases r) (auto split: option.splits)

lemma typed_first_part_text:
  assumes "typed_response r" and "py_in ''candidates'' r = Inr True"
  shows "first_part_text r = Inl KeyError \<or> first_part_text r = Inl IndexError
     \<or> first_part_text r = Inr JNull \<or> (\<exists>s. first_part_text r = Inr (JStr s))"
proof -
  from typed_response_candidates [OF assms(1)] assms(2)
  obtain cs where cs: "subscript_key r ''candidates'' = Inr cs" "typed_candidates cs" by auto
  from typed_candidates_first [OF cs(2)] show ?thesis
  proof (elim disjE exE conjE)
    assume "subscript_0 cs = Inl IndexError"
    with cs show ?thesis by (simp add: first_part_text_def bind_result_def)
  next
    fix c assume c: "subscript_0 cs = Inr c" "typed_candidate c"
    from typed_candidate_content [OF c(2)] show ?thesis
    proof (elim disjE exE conjE)
      assume "subscript_key c ''content'' = Inl KeyError"
      with cs c show ?thesis by (simp add: first_part_text_def bind_result_def)
    next
      fix ct assume ct: "subscript_key c ''content'' = Inr ct" "typed_content ct"
      from typed_content_parts [OF ct(2)] show ?thesis
      proof (elim disjE exE conjE)
        assume "subscript_key ct ''parts'' = Inl KeyError"
        with cs c ct show ?thesis by (simp add: first_part_text_def bind_result_def)
      next
        fix ps assume ps: "subscript_key ct ''parts'' = Inr ps" "typed_parts ps"
        from typed_parts_first [OF ps(2)] show ?thesis
        proof (elim disjE exE conjE)
          assume "subscript_0 ps = Inl IndexError"
          with cs c ct ps show ?thesis by (simp add: first_part_text_def bind_result_def)
        next
          fix p assume p: "subscript_0 ps = Inr p" "typed_part p"
          have "first_part_text r = subscript_key p ''text''"
            using cs c ct ps p by (simp add: first_part_text_def bind_result_def)
          with typed_part_text [OF p(2)] show ?thesis by auto
        qed
      qed
    qed
  qed
qed

lemma typed_inspect_result:
  assumes "typed_response r"
  shows "fst (inspect_result loads r) \<noteq> Inl TypeError"
proof -
  from typed_response_candidates [OF assms] show ?thesis
  proof (elim disjE conjE)
    assume "py_in ''candidates'' r = Inr False"
    then show ?thesis by (simp add: inspect_result_def bind_result_def)
  next
    assume has: "py_in ''candidates'' r = Inr True"
    from typed_first_part_text [OF assms has] show ?thesis
    proof (elim disjE exE)
      assume "first_part_text r = Inl KeyError"
      with has show ?thesis by (simp add: inspect_result_def bind_result_def)
    next
      assume "first_part_text r = Inl IndexError"
      with has show ?thesis by (simp add: inspect_result_def bind_result_def)
    next
      assume "first_part_text r = Inr JNull"
      with has show ?thesis by (simp add: inspect_result_def bind_result_def)
    next
      fix s assume "first_part_text r = Inr (JStr s)"
      with has show ?thesis
        by (cases "loads s"; cases "s = []") (simp_all add: inspect_result_def bind_result_def)
    qed
  qed
qed

lemma typed_without_text_settled:
  assumes typed: "typed_response result"
    and none: "\<forall>s. first_part_text result = Inr (JStr s) \<and> s \<noteq> [] \<longrightarrow> (\<exists>m. loads s = Not_json m)"
  shows "inspect_result loads result = (Inr JNull, [St_error unexpected_response])
       \<or> inspect_result loads result = (Inl KeyError, [])
       \<or> inspect_result loads result = (Inl IndexError, [])
       \<or> inspect_result loads result = (Inl JSONDecodeError, [])"
proof -
  from inspect_result_cases [of loads result] consider
      (unexpected) "inspect_result loads result = (Inr JNull, [St_error unexpected_response])"
    | (raises) e' where "inspect_result loads result = (Inl e', [])"
        "e' = KeyError \<or> e' = IndexError \<or> e' = TypeError"
    | (in_part) s where "first_part_text result = Inr (JStr s)" "s \<noteq> []"
        "inspect_result loads result = (py_json_loads loads (JStr s), [])"
    by blast
  then show ?thesis
  proof cases
    case unexpected
    then show ?thesis by simp
  next
    case raises
    from raises(1) typed_inspect_result [OF typed, of loads] have "e' \<noteq> TypeError" by auto
    with raises show ?thesis by auto
  next
    case in_part
    from none in_part(1,2) obtain m where "loads s = Not_json m" by blast
    with in_part(3) show ?thesis by simp
  qed
qed

text \<open>One round of the loop, and the loop after \<open>i\<close> failed attempts.\<close>

lemma loop_body_response:
  assumes "requests_calls env pl i = Inr result"
  shows "loop_body k env pl i =
     (case inspect_result (json_loads env) result of
        (Inr v, evs) \<Rightarrow> (Return (Inr v), Http_post (API_URL k) headers pl # evs)
      | (Inl e, evs) \<Rightarrow>
          (if e = KeyError \<or> e = IndexError \<or> e = JSONDecodeError
           then (Return (Inr JNull), Http_post (API_URL k) headers pl # evs @ [St_error parse_failure])
           else (Return (Inl e), Http_post (API_URL k) headers pl # evs)))"
proof -
  obtain x evs where ir: "inspect_result (json_loads env) result = (x, evs)"
    by (cases "inspect_result (json_loads env) result")
  show ?thesis
  proof (cases x)
    case (Inr v)
    with ir assms show ?thesis by (simp add: loop_body_def attempt_def)
  next
    case (Inl e)
    with ir inspect_result_raises [of "json_loads env" result e evs]
    have "e = KeyError \<or> e = IndexError \<or> e = TypeError \<or> e = JSONDecodeError
           \<or> e = RecursionError \<or> e = ValueError" by simp
    then show ?thesis
      using ir Inl assms by (elim disjE) (simp_all add: loop_body_def attempt_def)
  qed
qed

lemma backoff_Suc: "backoff rq (Suc n) = backoff rq n @ [rq, Sleep (2 ^ n)]"
  by (simp add: backoff_def)

lemma backoff_0: "backoff rq 0 = []"
  by (simp add: backoff_def)

lemma backoff_2: "backoff rq 2 = [rq, Sleep 1, rq, Sleep 2]"
proof -
  have "backoff rq (Suc (Suc 0)) = [rq, Sleep 1, rq, Sleep 2]"
    by (simp add: backoff_Suc backoff_0)
  then show ?thesis by (simp add: numeral_2_eq_2)
qed

lemma for_loop_after_failures:
  assumes "i < 3" and "\<forall>j<i. is_retried (requests_calls env pl j)"
  shows "for_loop k env pl 0 =
     (case for_loop k env pl i of (r, evs) \<Rightarrow> (r, backoff (Http_post (API_URL k) headers pl) i @ evs))"
  using assms
proof (induction i)
  case 0
  then show ?case by (simp add: backoff_0 split: prod.splits)
next
  case (Suc i)
  from Suc.prems obtain m where m: "requests_calls env pl i = Inl (RequestException m)"
    by (auto simp: is_retried_iff)
  from Suc.prems have i: "i < 2" by simp
  have "for_loop k env pl i =
     (case for_loop k env pl (Suc i) of (r, evs) \<Rightarrow> (r, [Http_post (API_URL k) headers pl, Sleep (2 ^ i)] @ evs))"
    using i by (subst for_loop_step) (simp_all add: loop_body_exception [OF m])
  moreover have "for_loop k env pl 0 =
     (case for_loop k env pl i of (r, evs) \<Rightarrow> (r, backoff (Http_post (API_URL k) headers pl) i @ evs))"
    using Suc by simp
  ultimately show ?case
    by (simp add: backoff_Suc split: prod.splits)
qed

lemma errors_are_not_requests: "list_all is_st_error evs \<Longrightarrow> filter is_http_post evs = []"
proof (induction evs)
  case Nil
  show ?case by simp
next
  case (Cons e evs)
  then show ?case by (cases e) simp_all
qed

lemma errors_are_not_sleeps: "list_all is_st_error evs \<Longrightarrow> filter is_sleep evs = []"
proof (induction evs)
  case Nil
  show ?case by simp
next
  case (Cons e evs)
  then show ?case by (cases e) simp_all
qed

lemma filter_post_backoff:
  "is_http_post rq \<Longrightarrow> filter is_http_post (backoff rq n) = replicate n rq"
  by (induction n) (simp_all add: backoff_0 backoff_Suc replicate_append_same)

lemma filter_sleep_backoff:
  "\<not> is_sleep rq \<Longrightarrow> filter is_sleep (backoff rq n) = map (\<lambda>i. Sleep (2 ^ i)) [0..<n]"
  by (induction n) (simp_all add: backoff_0 backoff_Suc)

lemma for_loop_response:
  assumes "i < 3" and "requests_calls env pl i = Inr result"
  shows "for_loop k env pl i =
     (case inspect_result (json_loads env) result of
        (Inr v, evs) \<Rightarrow> (Inr v, Http_post (API_URL k) headers pl # evs)
      | (Inl e, evs) \<Rightarrow>
          (if e = KeyError \<or> e = IndexError \<or> e = JSONDecodeError
           then (Inr JNull, Http_post (API_URL k) headers pl # evs @ [St_error parse_failure])
           else (Inl e, Http_post (API_URL k) headers pl # evs)))"
  using assms(1)
  by (subst for_loop_step) (auto simp: loop_body_response [OF assms(2)] split: sum.splits prod.splits)

lemma for_loop_passes:
  assumes "i < 3" and "requests_calls env pl i = Inl e" and "e = RecursionError \<or> e = ValueError"
  shows "for_loop k env pl i = (Inl e, [Http_post (API_URL k) headers pl])"
  using assms(1)
  by (subst for_loop_step) (simp_all add: loop_body_passes [OF assms(2,3)])

lemma for_loop_ends:
  assumes i: "i < 3" and here: "\<not> is_retried (requests_calls env pl i)"
  shows "\<exists>r evs. for_loop k env pl i = (r, Http_post (API_URL k) headers pl # evs)
           \<and> list_all is_st_error evs \<and> length evs \<le> 1"
proof (cases "requests_calls env pl i")
  case (Inl e)
  with here requests_calls_raises [of env pl i e]
  have "e = RecursionError \<or> e = ValueError" by (auto simp: is_retried_iff)
  from for_loop_passes [OF i Inl this, of k] show ?thesis by simp
next
  case (Inr result)
  obtain x evs where ir: "inspect_result (json_loads env) result = (x, evs)"
    by (cases "inspect_result (json_loads env) result")
  show ?thesis
  proof (cases x)
    case e: (Inl e)
    with ir inspect_result_raises [of "json_loads env" result e evs] have "evs = []" by simp
    with ir e show ?thesis by (simp add: for_loop_response [OF i Inr])
  next
    case v: (Inr v)
    with ir inspect_result_returns [of "json_loads env" result v evs]
    have "evs = [St_error unexpected_response] \<or> evs = []" by auto
    with ir v show ?thesis by (auto simp: for_loop_response [OF i Inr])
  qed
qed

lemma for_loop_last_exception:
  assumes "requests_calls env pl 2 = Inl (RequestException m)"
  shows "for_loop k env pl 2 =
     (Inr JNull, [Http_post (API_URL k) headers pl, St_error (connect_failure m)])"
  by (subst for_loop_step) (simp_all add: loop_body_exception [OF assms])

lemma for_loop_starts_with_request:
  assumes "i < 3"
  shows "\<exists>r evs. for_loop k env pl i = (r, Http_post (API_URL k) headers pl # evs)"
proof (cases "is_retried (requests_calls env pl i)")
  case False
  from for_loop_ends [OF assms this] show ?thesis by blast
next
  case True
  then obtain m where m: "requests_calls env pl i = Inl (RequestException m)"
    by (auto simp: is_retried_iff)
  show ?thesis
    using assms
    by (subst for_loop_step) (auto simp: loop_body_exception [OF m] split: prod.splits)
qed

lemma for_loop_defect:
  assumes i: "i < 3"
    and before: "\<forall>j<i. is_retried (requests_calls env pl j)"
    and reply: "requests_calls env pl i = Inr result"
    and defect: "inspect_result (json_loads env) result = (Inr JNull, [St_error unexpected_response])
       \<or> inspect_result (json_loads env) result = (Inl KeyError, [])
       \<or> inspect_result (json_loads env) result = (Inl IndexError, [])
       \<or> inspect_result (json_loads env) result = (Inl JSONDecodeError, [])"
  shows "\<exists>msg. (msg = unexpected_response \<or> msg = parse_failure)
      \<and> for_loop k env pl 0
          = (Inr JNull, backoff (Http_post (API_URL k) headers pl) i
                        @ [Http_post (API_URL k) headers pl, St_error msg])"
proof -
  let ?rq = "Http_post (API_URL k) headers pl"
  from defect
  have "for_loop k env pl i = (Inr JNull, [?rq, St_error unexpected_response])
      \<or> for_loop k env pl i = (Inr JNull, [?rq, St_error parse_failure])"
    by (elim disjE) (simp_all add: for_loop_response [OF i reply])
  then have "for_loop k env pl 0 = (Inr JNull, backoff ?rq i @ [?rq, St_error unexpected_response])
      \<or> for_loop k env pl 0 = (Inr JNull, backoff ?rq i @ [?rq, St_error parse_failure])"
    by (elim disjE) (simp_all add: for_loop_after_failures [OF i before])
  then show ?thesis by blast
qed

text \<open>
  Every run has one of two shapes: some attempt \<open>i\<close> is not retried after \<open>i\<close> retried
  attempts, and the run ends there; or all three attempts raise a \<^verbatim>\<open>RequestException\<close>.
\<close>

lemma run_cases:
  fixes k env pl
  defines "rq \<equiv> Http_post (API_URL k) headers pl"
  shows "(\<exists>i<3. \<exists>r evs.
            (\<forall>j<i. is_retried (requests_calls env pl j))
          \<and> \<not> is_retried (requests_calls env pl i)
          \<and> for_loop k env pl i = (r, rq # evs)
          \<and> for_loop k env pl 0 = (r, backoff rq i @ rq # evs)
          \<and> list_all is_st_error evs \<and> length evs \<le> 1)
       \<or> (\<exists>ma mb mc.
            requests_calls env pl 0 = Inl (RequestException ma)
          \<and> requests_calls env pl 1 = Inl (RequestException mb)
          \<and> requests_calls env pl 2 = Inl (RequestException mc)
          \<and> for_loop k env pl 0 = (Inr JNull, backoff rq 2 @ [rq, St_error (connect_failure mc)]))"
proof -
  have resp: "?thesis"
    if i: "i < 3" and before: "\<forall>j<i. is_retried (requests_calls env pl j)"
      and here: "\<not> is_retried (requests_calls env pl i)" for i
  proof -
    from for_loop_ends [OF i here, of k] obtain r evs where
      at_i: "for_loop k env pl i = (r, rq # evs)" and evs: "list_all is_st_error evs" "length evs \<le> 1"
      unfolding rq_def by blast
    from for_loop_after_failures [OF i before, of k] at_i
    have "for_loop k env pl 0 = (r, backoff rq i @ rq # evs)"
      unfolding rq_def by simp
    with i before here at_i evs show ?thesis by blast
  qed
  show ?thesis
  proof (cases "is_retried (requests_calls env pl 0)")
    case False
    then show ?thesis using resp [of 0] by simp
  next
    case r0: True
    show ?thesis
    proof (cases "is_retried (requests_calls env pl 1)")
      case False
      then show ?thesis using resp [of 1] r0 by (simp add: less_Suc_eq)
    next
      case r1: True
      have before: "\<forall>j<2. is_retried (requests_calls env pl j)"
        using r0 r1 by (auto simp: less_Suc_eq numeral_2_eq_2)
      show ?thesis
      proof (cases "is_retried (requests_calls env pl 2)")
        case False
        then show ?thesis using resp [of 2] before by simp
      next
        case r2: True
        from r0 r1 r2 obtain ma mb mc where
          m: "requests_calls env pl 0 = Inl (RequestException ma)"
             "requests_calls env pl 1 = Inl (RequestException mb)"
             "requests_calls env pl 2 = Inl (RequestException mc)"
          by (auto simp: is_retried_iff)
        from for_loop_after_failures [of 2 env pl k] before for_loop_last_exception [OF m(3), of k]
        have "for_loop k env pl 0 = (Inr JNull, backoff rq 2 @ [rq, St_error (connect_failure mc)])"
          unfolding rq_def by simp
        with m show ?thesis by blast
      qed
    qed
  qed
qed

lemma requests_of_run:
  "\<exists>n. 1 \<le> n \<and> n \<le> 3
     \<and> filter is_http_post (snd (for_loop k env pl 0))
         = replicate n (Http_post (API_URL k) headers pl)"
  using run_cases [of env pl k]
proof (elim disjE exE conjE)
  fix i r evs
  assume "i < 3"
    and "for_loop k env pl 0 = (r, backoff (Http_post (API_URL k) headers pl) i
                 @ Http_post (API_URL k) headers pl # evs)"
    and "list_all is_st_error evs"
  then have "1 \<le> Suc i \<and> Suc i \<le> 3 \<and> filter is_http_post (snd (for_loop k env pl 0))
      = replicate (Suc i) (Http_post (API_URL k) headers pl)"
    by (simp add: filter_post_backoff errors_are_not_requests replicate_append_same)
  then show ?thesis by blast
next
  fix mc
  assume "for_loop k env pl 0 = (Inr JNull, backoff (Http_post (API_URL k) headers pl) 2
                 @ [Http_post (API_URL k) headers pl, St_error (connect_failure mc)])"
  then have "1 \<le> (3::nat) \<and> (3::nat) \<le> 3 \<and> filter is_http_post (snd (for_loop k env pl 0))
      = replicate 3 (Http_post (API_URL k) headers pl)"
    by (simp add: filter_post_backoff replicate_append_same numeral_3_eq_3 numeral_2_eq_2)
  then show ?thesis by blast
qed

lemma retried_is_no_response: "is_retried x \<Longrightarrow> \<not> is_response x"
  by (cases x) simp_all

lemma filter_response_failures:
  "\<forall>j<n. \<not> is_response (f j) \<Longrightarrow> filter is_response (map f [0..<n]) = []"
  by (induction n) simp_all

lemma replies_of_run:
  assumes "\<forall>j<i. is_retried (requests_calls env pl j)"
  shows "filter is_response (map (\<lambda>j. requests_calls env pl j) [0..<i]) = []"
  using assms by (intro filter_response_failures) (simp add: retried_is_no_response)

lemma leading_failures_response:
  assumes "i < 3" and "\<forall>j<i. is_retried (requests_calls env pl j)"
    and "\<not> is_retried (requests_calls env pl i)"
  shows "leading_failures env pl = i"
proof -
  from assms(1) consider "i = 0" | "i = 1" | "i = 2" by linarith
  then show ?thesis
  proof cases
    case 1
    with assms(3) show ?thesis by (simp add: leading_failures_def)
  next
    case 2
    with assms(2) have "is_retried (requests_calls env pl 0)" by simp
    with 2 assms(3) show ?thesis by (simp add: leading_failures_def)
  next
    case 3
    with assms(2) have "is_retried (requests_calls env pl 0)" "is_retried (requests_calls env pl 1)"
      by simp_all
    with 3 show ?thesis by (simp add: leading_failures_def)
  qed
qed

lemma leading_failures_le: "leading_failures env pl \<le> 2"
  by (simp add: leading_failures_def)

lemma consumed_responses:
  "length (filter is_response
     (map (\<lambda>j. requests_calls env pl j)
        [0..<length (filter is_http_post (snd (for_loop k env pl 0)))])) \<le> 1"
  using run_cases [of env pl k]
proof (elim disjE exE conjE)
  fix i r evs
  assume i: "i < 3" and before: "\<forall>j<i. is_retried (requests_calls env pl j)"
    and run: "for_loop k env pl 0 = (r, backoff (Http_post (API_URL k) headers pl) i
                 @ Http_post (API_URL k) headers pl # evs)"
    and evs: "list_all is_st_error evs"
  from evs have "filter is_http_post evs = []" by (rule errors_are_not_requests)
  with run have "length (filter is_http_post (snd (for_loop k env pl 0))) = Suc i"
    by (simp add: filter_post_backoff)
  with replies_of_run [OF before] show ?thesis by simp
next
  fix ma mb mc
  assume fails: "requests_calls env pl 0 = Inl (RequestException ma)"
    "requests_calls env pl 1 = Inl (RequestException mb)"
    "requests_calls env pl 2 = Inl (RequestException mc)"
    and run: "for_loop k env pl 0 = (Inr JNull, backoff (Http_post (API_URL k) headers pl) 2
                 @ [Http_post (API_URL k) headers pl, St_error (connect_failure mc)])"
  from run have "length (filter is_http_post (snd (for_loop k env pl 0))) = 3"
    by (simp add: filter_post_backoff)
  moreover have "\<forall>j<3. is_retried (requests_calls env pl j)"
  proof (intro allI impI)
    fix j :: nat
    assume "j < 3"
    then consider "j = 0" | "j = 1" | "j = 2" by linarith
    then show "is_retried (requests_calls env pl j)"
      using fails by cases simp_all
  qed
  ultimately show ?thesis using replies_of_run [of 3 env pl] by simp
qed

lemma sleeps_of_run:
  "filter is_sleep (snd (for_loop k env pl 0))
     = map (\<lambda>j. Sleep (2 ^ j)) [0..<leading_failures env pl]"
  using run_cases [of env pl k]
proof (elim disjE exE conjE)
  fix i r evs
  assume i: "i < 3" and before: "\<forall>j<i. is_retried (requests_calls env pl j)"
    and here: "\<not> is_retried (requests_calls env pl i)"
    and run: "for_loop k env pl 0 = (r, backoff (Http_post (API_URL k) headers pl) i
                 @ Http_post (API_URL k) headers pl # evs)"
    and evs: "list_all is_st_error evs"
  from evs have "filter is_sleep evs = []" by (rule errors_are_not_sleeps)
  with run leading_failures_response [OF i before here] show ?thesis
    by (simp add: filter_sleep_backoff)
next
  fix ma mb mc
  assume fails: "requests_calls env pl 0 = Inl (RequestException ma)"
    "requests_calls env pl 1 = Inl (RequestException mb)"
    and run: "for_loop k env pl 0 = (Inr JNull, backoff (Http_post (API_URL k) headers pl) 2
                 @ [Http_post (API_URL k) headers pl, St_error (connect_failure mc)])"
  from fails have "leading_failures env pl = 2" by (simp add: leading_failures_def)
  with run show ?thesis by (simp add: filter_sleep_backoff)
qed

lemma response_ends_run:
  assumes i: "i < 3" and before: "\<forall>j<i. is_retried (requests_calls env pl j)"
    and here: "requests_calls env pl i = Inr result"
  shows "\<exists>evs. snd (for_loop k env pl 0)
             = backoff (Http_post (API_URL k) headers pl) i @ Http_post (API_URL k) headers pl # evs
           \<and> list_all is_st_error evs \<and> length evs \<le> 1"
proof -
  from here have "\<not> is_retried (requests_calls env pl i)" by simp
  from for_loop_ends [OF i this, of k] obtain r evs where
    "for_loop k env pl i = (r, Http_post (API_URL k) headers pl # evs)"
    "list_all is_st_error evs" "length evs \<le> 1" by blast
  with for_loop_after_failures [OF i before, of k] show ?thesis by simp
qed

lemma typed_response_returns:
  assumes i: "i < 3" and before: "\<forall>j<i. is_retried (requests_calls env pl j)"
    and here: "requests_calls env pl i = Inr result"
    and typed: "typed_response result"
  shows "fst (for_loop k env pl 0) = Inr JNull
     \<or> (\<exists>s v. first_part_text result = Inr (JStr s) \<and> json_loads env s = Decoded v
           \<and> fst (for_loop k env pl 0) = Inr v)
     \<or> (\<exists>s. first_part_text result = Inr (JStr s) \<and> json_loads env s = Recursion_error
           \<and> fst (for_loop k env pl 0) = Inl RecursionError)
     \<or> (\<exists>s. first_part_text result = Inr (JStr s) \<and> json_loads env s = Value_error
           \<and> fst (for_loop k env pl 0) = Inl ValueError)"
proof -
  have same: "fst (for_loop k env pl 0) = fst (for_loop k env pl i)"
    using for_loop_after_failures [OF i before, of k] by (simp split: prod.splits)
  from inspect_result_cases [of "json_loads env" result] consider
      (unexpected) "inspect_result (json_loads env) result = (Inr JNull, [St_error unexpected_response])"
    | (raises) e' where "inspect_result (json_loads env) result = (Inl e', [])"
        "e' = KeyError \<or> e' = IndexError \<or> e' = TypeError"
    | (in_part) s where "first_part_text result = Inr (JStr s)" "s \<noteq> []"
        "inspect_result (json_loads env) result = (py_json_loads (json_loads env) (JStr s), [])"
    by blast
  then show ?thesis
  proof cases
    case unexpected
    then show ?thesis by (simp add: same for_loop_response [OF i here])
  next
    case raises
    from raises(1) typed_inspect_result [OF typed, of "json_loads env"] have "e' \<noteq> TypeError"
      by auto
    with raises show ?thesis by (auto simp: same for_loop_response [OF i here])
  next
    case in_part
    note s = in_part(1) and ir = in_part(3)
    show ?thesis
    proof (cases "json_loads env s")
      case (Decoded v)
      with ir s show ?thesis by (simp add: same for_loop_response [OF i here])
    next
      case (Not_json m)
      with ir show ?thesis by (simp add: same for_loop_response [OF i here])
    next
      case Recursion_error
      with ir s show ?thesis by (simp add: same for_loop_response [OF i here])
    next
      case Value_error
      with ir s show ?thesis by (simp add: same for_loop_response [OF i here])
    qed
  qed
qed

section \<open>Facts about the extractor and the pipeline\<close>

lemma read_pages_texts: "read_pages (map Inr ts) acc = Inr (acc @ concat ts)"
  by (induction ts arbitrary: acc) simp_all

lemma read_pages_raises: "read_pages (map Inr ts @ Inl msg # rest) acc = Inl msg"
  by (induction ts arbitrary: acc) simp_all

lemma extract_events_no_request: "filter is_http_post (snd (extract_text_from_pdf env f)) = []"
  by (simp add: extract_text_from_pdf_def extract_try_def split: sum.splits)

text \<open>The handle is closed exactly when the extraction succeeds.\<close>

lemma close_only_on_success:
  "Doc_close \<in> set (snd (extract_text_from_pdf env f))
     \<longleftrightarrow> (\<exists>t. fst (extract_text_from_pdf env f) = Inr (Some t))"
  by (simp add: extract_text_from_pdf_def extract_try_def split: sum.splits)

lemma io_bind_emit: "io_bind (emit evs) f = (case f () of (r, evs') \<Rightarrow> (r, evs @ evs'))"
  by (simp add: io_bind_def emit_def)

lemma handle_upload_insufficient:
  assumes "fst (extract_text_from_pdf env f) = Inr document_text" and "\<not> enough_text document_text"
  shows "handle_upload k env f
     = (Inr (), snd (extract_text_from_pdf env f) @ [St_warning insufficient_text])"
  using assms
  by (cases "extract_text_from_pdf env f")
     (auto simp: handle_upload_def io_bind_def emit_def enough_text_def split: option.splits)

section \<open>Facts about the presenter\<close>

lemma char_of_eq_iff: "char_of (n::nat) = c \<longleftrightarrow> n mod 256 = of_char c"
proof
  assume "char_of n = c"
  then have "of_char (char_of n) = (of_char c :: nat)" by simp
  then show "n mod 256 = of_char c" by simp
next
  assume "n mod 256 = of_char c"
  then have "of_char (char_of n) = (of_char c :: nat)" by simp
  then show "char_of n = c" by (rule of_char_eqI)
qed

lemma eq_char_of_iff: "c = char_of (n::nat) \<longleftrightarrow> n mod 256 = of_char c"
  using char_of_eq_iff [of n c] by auto

lemma caseless_eq_lower: "caseless_eq s t \<longleftrightarrow> py_lower s = py_lower t"
proof -
  have "list_all2 (\<lambda>a b. py_lower_char a = py_lower_char b) s t
      \<longleftrightarrow> list_all2 (=) (map py_lower_char s) (map py_lower_char t)"
    by (simp add: list.rel_map)
  then show ?thesis by (simp add: caseless_eq_def py_lower_def list.rel_eq)
qed

lemma py_lower_positive: "py_lower ''positive'' = ''positive''"
  by (simp add: py_lower_def py_lower_char_def char_of_eq_iff)

lemma py_lower_negative: "py_lower ''negative'' = ''negative''"
  by (simp add: py_lower_def py_lower_char_def char_of_eq_iff)





section \<open>The claims\<close>

subsection \<open>C1: the retry policy\<close>

text \<open>
  Claim C1, a transport-level failure being a connection error, a timeout, or a response
  with a status code 4xx or 5xx. The analysis client makes at most three HTTP attempts.
  After attempt 0 fails at the transport level it sleeps 1 unit and makes the next attempt;
  after attempt 1 fails too it sleeps 2 units and makes the third attempt. When the third
  attempt fails as well, nothing is retried: the run is exactly three requests with sleeps
  of 1 and 2 between them, then the error message with the text of the third failure, and
  the result is \<^verbatim>\<open>None\<close>. When instead the third attempt gets a response whose status code is
  neither 4xx nor 5xx, whose body decodes to a result, and the first part of the result
  carries a non-empty text that \<^verbatim>\<open>json.loads\<close> decodes to \<open>v\<close>, the run is exactly three
  requests with sleeps of 1 and 2 between them, and the result is \<open>v\<close>.
\<close>

theorem retry_policy:
  "length (filter is_http_post (snd (analyze_text_with_gemini k env input))) \<le> 3
   \<and> (transport_failure (requests_post env 0 (payload input)) \<longrightarrow>
        take 3 (snd (analyze_text_with_gemini k env input))
          = [request k input, Sleep 1, request k input])
   \<and> (transport_failure (requests_post env 0 (payload input))
        \<and> transport_failure (requests_post env 1 (payload input)) \<longrightarrow>
        take 5 (snd (analyze_text_with_gemini k env input))
          = [request k input, Sleep 1, request k input, Sleep 2, request k input])
   \<and> (transport_failure (requests_post env 0 (payload input))
        \<and> transport_failure (requests_post env 1 (payload input))
        \<and> transport_failure (requests_post env 2 (payload input)) \<longrightarrow>
        analyze_text_with_gemini k env input
          = (Inr JNull, [request k input, Sleep 1, request k input, Sleep 2, request k input,
                         St_error (connect_failure (failure_text (requests_post env 2 (payload input))))]))
   \<and> (transport_failure (requests_post env 0 (payload input))
        \<and> transport_failure (requests_post env 1 (payload input))
        \<and> requests_post env 2 (payload input) = Http_response response
        \<and> \<not> (400 \<le> status_code response \<and> status_code response < 600)
        \<and> json_body response = Decoded result
        \<and> first_part_text result = Inr (JStr s) \<and> s \<noteq> [] \<and> json_loads env s = Decoded v \<longrightarrow>
        analyze_text_with_gemini k env input
          = (Inr v, [request k input, Sleep 1, request k input, Sleep 2, request k input]))"
proof -
  let ?pl = "payload input"
  let ?rq = "Http_post (API_URL k) headers ?pl"
  have rq: "request k input = ?rq" by (simp add: request_def)
  have run: "analyze_text_with_gemini k env input = for_loop k env ?pl 0"
    by (simp add: analyze_text_with_gemini_def)
  have at_most_3: "length (filter is_http_post (snd (for_loop k env ?pl 0))) \<le> 3"
    using run_cases [of env ?pl k]
    by (auto simp: filter_post_backoff errors_are_not_requests)
  have after_one: "take 3 (snd (for_loop k env ?pl 0)) = [?rq, Sleep 1, ?rq]"
    if fail_a: "transport_failure (requests_post env 0 ?pl)"
  proof -
    have before: "\<forall>j<1. is_retried (requests_calls env ?pl j)"
      using transport_failure_retried [OF fail_a] by simp
    obtain r evs where "for_loop k env ?pl 1 = (r, ?rq # evs)"
      using for_loop_starts_with_request [of 1 k env ?pl] by auto
    with for_loop_after_failures [of 1 env ?pl k] before show ?thesis
      by (simp add: backoff_Suc backoff_0)
  qed
  have after_two: "\<exists>r evs. for_loop k env ?pl 0 = (r, [?rq, Sleep 1, ?rq, Sleep 2] @ evs)
      \<and> for_loop k env ?pl 2 = (r, evs)"
    if fail_a: "transport_failure (requests_post env 0 ?pl)"
      and fail_b: "transport_failure (requests_post env 1 ?pl)"
  proof -
    have before: "\<forall>j<2. is_retried (requests_calls env ?pl j)"
      using transport_failure_retried [OF fail_a] transport_failure_retried [OF fail_b]
      by (auto simp: less_Suc_eq numeral_2_eq_2)
    obtain r evs where "for_loop k env ?pl 2 = (r, evs)" by (cases "for_loop k env ?pl 2")
    with for_loop_after_failures [of 2 env ?pl k] before show ?thesis
      by (simp add: backoff_2)
  qed
  have two_then_request: "take 5 (snd (for_loop k env ?pl 0)) = [?rq, Sleep 1, ?rq, Sleep 2, ?rq]"
    if fail_a: "transport_failure (requests_post env 0 ?pl)"
      and fail_b: "transport_failure (requests_post env 1 ?pl)"
  proof -
    obtain r evs where "for_loop k env ?pl 2 = (r, ?rq # evs)"
      using for_loop_starts_with_request [of 2 k env ?pl] by auto
    with after_two [OF fail_a fail_b] show ?thesis by auto
  qed
  have three_failures: "for_loop k env ?pl 0
      = (Inr JNull, [?rq, Sleep 1, ?rq, Sleep 2, ?rq,
                     St_error (connect_failure (failure_text (requests_post env 2 ?pl)))])"
    if fail_a: "transport_failure (requests_post env 0 ?pl)"
      and fail_b: "transport_failure (requests_post env 1 ?pl)"
      and fail_c: "transport_failure (requests_post env 2 ?pl)"
    using after_two [OF fail_a fail_b]
      for_loop_last_exception [OF requests_calls_transport_failure [OF fail_c], of k]
    by auto
  have then_success: "for_loop k env ?pl 0 = (Inr v, [?rq, Sleep 1, ?rq, Sleep 2, ?rq])"
    if fail_a: "transport_failure (requests_post env 0 ?pl)"
      and fail_b: "transport_failure (requests_post env 1 ?pl)"
      and response: "requests_post env 2 ?pl = Http_response response"
        "\<not> (400 \<le> status_code response \<and> status_code response < 600)"
        "json_body response = Decoded result"
      and shape: "first_part_text result = Inr (JStr s)" "s \<noteq> []" "json_loads env s = Decoded v"
  proof -
    have "requests_calls env ?pl 2 = Inr result"
      using response by (rule requests_calls_response)
    from for_loop_response [OF _ this, of k] inspect_result_ok [of result s "json_loads env" v] shape
    have "for_loop k env ?pl 2 = (Inr v, [?rq])" by simp
    with after_two [OF fail_a fail_b] show ?thesis by auto
  qed
  show ?thesis
    unfolding run rq
    using at_most_3 after_one two_then_request three_failures then_success by blast
qed

theorem retry_policy_witness:
  "analyze_text_with_gemini ''key'' (env_of busy) ''some text''
     = (Inr sample_result,
        [request ''key'' ''some text'', Sleep 1, request ''key'' ''some text'', Sleep 2,
         request ''key'' ''some text''])
   \<and> analyze_text_with_gemini ''key'' (env_of always_unavailable) ''some text''
     = (Inr JNull,
        [request ''key'' ''some text'', Sleep 1, request ''key'' ''some text'', Sleep 2,
         request ''key'' ''some text'',
         St_error (connect_failure ''503 Server Error: Service Unavailable for url'')])
   \<and> analyze_text_with_gemini ''key'' (env_of down) ''some text''
     = (Inr JNull,
        [request ''key'' ''some text'', Sleep 1, request ''key'' ''some text'', Sleep 2,
         request ''key'' ''some text'', St_error (connect_failure ''connection refused'')])"
proof -
  let ?pl = "payload ''some text''"
  let ?response = "\<lparr>status_code = 200, http_error_msg = [],
     json_body = Decoded (good_response sample_text)\<rparr>"
  have busy:
    "transport_failure (requests_post (env_of busy) 0 ?pl)"
    "transport_failure (requests_post (env_of busy) 1 ?pl)"
    "requests_post (env_of busy) 2 ?pl = Http_response ?response"
    by (simp_all add: env_of_def busy_def unavailable_def ok_def)
  have response:
    "\<not> (400 \<le> status_code ?response \<and> status_code ?response < 600)"
    "json_body ?response = Decoded (good_response sample_text)"
    by simp_all
  have shape:
    "first_part_text (good_response sample_text) = Inr (JStr sample_text)"
    "sample_text \<noteq> []"
    "json_loads (env_of busy) sample_text = Decoded sample_result"
    by (simp_all add: first_part_text_good_response env_of_def sample_loads_def sample_text_def)
  have unavailable:
    "transport_failure (requests_post (env_of always_unavailable) 0 ?pl)"
    "transport_failure (requests_post (env_of always_unavailable) 1 ?pl)"
    "transport_failure (requests_post (env_of always_unavailable) 2 ?pl)"
    by (simp_all add: env_of_def always_unavailable_def unavailable_def)
  have unavailable_text:
    "failure_text (requests_post (env_of always_unavailable) 2 ?pl)
       = ''503 Server Error: Service Unavailable for url''"
    by (simp add: env_of_def always_unavailable_def unavailable_def)
  have down:
    "transport_failure (requests_post (env_of down) 0 ?pl)"
    "transport_failure (requests_post (env_of down) 1 ?pl)"
    "transport_failure (requests_post (env_of down) 2 ?pl)"
    by (simp_all add: env_of_def down_def)
  have down_text: "failure_text (requests_post (env_of down) 2 ?pl) = ''connection refused''"
    by (simp add: env_of_def down_def)
  from retry_policy [where k = "''key''" and env = "env_of busy" and input = "''some text''"
      and response = ?response and result = "good_response sample_text"
      and s = sample_text and v = sample_result]
    busy response shape
  have one: "analyze_text_with_gemini ''key'' (env_of busy) ''some text''
     = (Inr sample_result,
        [request ''key'' ''some text'', Sleep 1, request ''key'' ''some text'', Sleep 2,
         request ''key'' ''some text''])"
    by blast
  from retry_policy [where k = "''key''" and env = "env_of always_unavailable"
      and input = "''some text''"]
    unavailable
  have "analyze_text_with_gemini ''key'' (env_of always_unavailable) ''some text''
     = (Inr JNull,
        [request ''key'' ''some text'', Sleep 1, request ''key'' ''some text'', Sleep 2,
         request ''key'' ''some text'',
         St_error (connect_failure (failure_text (requests_post (env_of always_unavailable) 2 ?pl)))])"
    by blast
  then have two: "analyze_text_with_gemini ''key'' (env_of always_unavailable) ''some text''
     = (Inr JNull,
        [request ''key'' ''some text'', Sleep 1, request ''key'' ''some text'', Sleep 2,
         request ''key'' ''some text'',
         St_error (connect_failure ''503 Server Error: Service Unavailable for url'')])"
    by (simp only: unavailable_text)
  from retry_policy [where k = "''key''" and env = "env_of down" and input = "''some text''"]
    down
  have "analyze_text_with_gemini ''key'' (env_of down) ''some text''
     = (Inr JNull,
        [request ''key'' ''some text'', Sleep 1, request ''key'' ''some text'', Sleep 2,
         request ''key'' ''some text'',
         St_error (connect_failure (failure_text (requests_post (env_of down) 2 ?pl)))])"
    by blast
  then have three: "analyze_text_with_gemini ''key'' (env_of down) ''some text''
     = (Inr JNull,
        [request ''key'' ''some text'', Sleep 1, request ''key'' ''some text'', Sleep 2,
         request ''key'' ''some text'', St_error (connect_failure ''connection refused'')])"
    by (simp only: down_text)
  from one two three show ?thesis by (intro conjI)
qed

text \<open>
  The list of transport-level failures cannot be every status code outside 2xx:
  \<^verbatim>\<open>raise_for_status\<close> raises for 4xx and 5xx only. A response with the status code 300 and a
  body of the expected shape is consumed like a success: the run is one request, with no
  sleep and no second attempt, and the decoded result is returned.
\<close>

theorem status_300_is_consumed_without_retry:
  "requests_post (env_of multiple_choices) 0 (payload ''some text'')
     = Http_response \<lparr>status_code = 300, http_error_msg = [],
                      json_body = Decoded (good_response sample_text)\<rparr>
   \<and> raise_for_status \<lparr>status_code = 300, http_error_msg = [],
                       json_body = Decoded (good_response sample_text)\<rparr> = Inr ()
   \<and> analyze_text_with_gemini ''key'' (env_of multiple_choices) ''some text''
     = (Inr sample_result, [request ''key'' ''some text''])
   \<and> filter is_sleep (snd (analyze_text_with_gemini ''key'' (env_of multiple_choices) ''some text''))
     = []"
proof -
  let ?pl = "payload ''some text''"
  let ?response = "\<lparr>status_code = 300, http_error_msg = [],
     json_body = Decoded (good_response sample_text)\<rparr>"
  have reply: "requests_post (env_of multiple_choices) 0 ?pl = Http_response ?response"
    by (simp add: env_of_def multiple_choices_def)
  have status: "raise_for_status ?response = Inr ()"
    by (simp add: raise_for_status_def)
  have calls: "requests_calls (env_of multiple_choices) ?pl 0 = Inr (good_response sample_text)"
    using reply by (rule requests_calls_response) simp_all
  have "inspect_result (json_loads (env_of multiple_choices)) (good_response sample_text)
      = (Inr sample_result, [])"
    by (rule inspect_result_ok [of _ sample_text])
       (simp_all add: first_part_text_good_response env_of_def sample_loads_def sample_text_def)
  with for_loop_response [OF _ calls, of "''key''"]
  have run: "analyze_text_with_gemini ''key'' (env_of multiple_choices) ''some text''
     = (Inr sample_result, [request ''key'' ''some text''])"
    by (simp add: analyze_text_with_gemini_def request_def)
  then have "filter is_sleep
      (snd (analyze_text_with_gemini ''key'' (env_of multiple_choices) ''some text'')) = []"
    by (simp add: request_def)
  with reply status run show ?thesis by (intro conjI)
qed

subsection \<open>C2: defective responses\<close>

text \<open>
  The defects of a received response that the client handles. Let attempt \<open>i\<close> be reached
  (the attempts before it raised a \<^verbatim>\<open>RequestException\<close>) and let its three calls return a
  JSON object with one of these defects: the object has no \<open>candidates\<close>; its \<open>candidates\<close>
  is the empty list; its first candidate is an object with no \<open>content\<close>, or with a content
  that is an object with no \<open>parts\<close> or an empty list of them; the first part is an object
  with no \<open>text\<close>, or a null or empty \<open>text\<close>; or the \<open>text\<close> is one on which \<^verbatim>\<open>json.loads\<close>
  raises \<^verbatim>\<open>json.JSONDecodeError\<close>. Then the client returns \<^verbatim>\<open>None\<close> in that attempt: after
  the request of attempt \<open>i\<close> come one error message and nothing else, so no further request
  and no sleep.
\<close>

theorem handled_defects_are_terminal:
  assumes reached: "i < 3"
      "\<forall>j<i. is_retried (requests_calls env (payload input) j)"
    and reply: "requests_calls env (payload input) i = Inr (JObj result)"
    and defect:
      "map_of result ''candidates'' = None
       \<or> map_of result ''candidates'' = Some (JArr [])
       \<or> (\<exists>candidate candidates.
             map_of result ''candidates'' = Some (JArr (JObj candidate # candidates))
           \<and> map_of candidate ''content'' = None)
       \<or> (\<exists>candidate candidates content.
             map_of result ''candidates'' = Some (JArr (JObj candidate # candidates))
           \<and> map_of candidate ''content'' = Some (JObj content)
           \<and> (map_of content ''parts'' = None \<or> map_of content ''parts'' = Some (JArr [])))
       \<or> (\<exists>candidate candidates content part parts.
             map_of result ''candidates'' = Some (JArr (JObj candidate # candidates))
           \<and> map_of candidate ''content'' = Some (JObj content)
           \<and> map_of content ''parts'' = Some (JArr (JObj part # parts))
           \<and> (map_of part ''text'' = None
               \<or> map_of part ''text'' = Some JNull
               \<or> map_of part ''text'' = Some (JStr [])
               \<or> (\<exists>s m. map_of part ''text'' = Some (JStr s) \<and> json_loads env s = Not_json m)))"
  shows "\<exists>msg. (msg = unexpected_response \<or> msg = parse_failure)
      \<and> analyze_text_with_gemini k env input
          = (Inr JNull, backoff (request k input) i @ [request k input, St_error msg])"
proof -
  have typed: "typed_response (JObj result)"
    using defect by (elim disjE exE conjE) simp_all
  have none: "\<forall>s. first_part_text (JObj result) = Inr (JStr s) \<and> s \<noteq> []
      \<longrightarrow> (\<exists>m. json_loads env s = Not_json m)"
    using defect
    by (elim disjE exE conjE) (simp_all add: first_part_text_def bind_result_def)
  from for_loop_defect [OF reached reply typed_without_text_settled [OF typed none], of k]
  show ?thesis
    by (simp add: analyze_text_with_gemini_def request_def)
qed

theorem handled_defects_are_terminal_witness:
  "(\<exists>msg. (msg = unexpected_response \<or> msg = parse_failure)
      \<and> analyze_text_with_gemini ''key'' (env_of empty_candidates_second) ''some text''
          = (Inr JNull,
             [request ''key'' ''some text'', Sleep 1, request ''key'' ''some text'', St_error msg]))
   \<and> (\<exists>msg. (msg = unexpected_response \<or> msg = parse_failure)
      \<and> analyze_text_with_gemini ''key'' (env_of blocked_prompt) ''some text''
          = (Inr JNull, [request ''key'' ''some text'', St_error msg]))"
proof -
  have reached: "(1::nat) < 3"
    "\<forall>j<1. is_retried (requests_calls (env_of empty_candidates_second) (payload ''some text'') j)"
    by (simp_all add: requests_calls_def env_of_def empty_candidates_second_def)
  have reply: "requests_calls (env_of empty_candidates_second) (payload ''some text'') 1
      = Inr (JObj [(''candidates'', JArr [])])"
    by (rule requests_calls_ok) (simp add: env_of_def empty_candidates_second_def)
  have defect: "map_of [(''candidates'', JArr [])] ''candidates'' = Some (JArr [])"
    by simp
  from handled_defects_are_terminal [OF reached reply, of "''key''"] defect
  have one: "\<exists>msg. (msg = unexpected_response \<or> msg = parse_failure)
      \<and> analyze_text_with_gemini ''key'' (env_of empty_candidates_second) ''some text''
          = (Inr JNull,
             [request ''key'' ''some text'', Sleep 1, request ''key'' ''some text'', St_error msg])"
    by (simp add: backoff_Suc backoff_0)
  have reached': "(0::nat) < 3"
    "\<forall>j<0. is_retried (requests_calls (env_of blocked_prompt) (payload ''some text'') j)"
    by simp_all
  have reply': "requests_calls (env_of blocked_prompt) (payload ''some text'') 0
      = Inr (JObj [(''promptFeedback'', JObj [(''blockReason'', JStr ''SAFETY'')])])"
    by (rule requests_calls_ok) (simp add: env_of_def blocked_prompt_def)
  have defect': "map_of [(''promptFeedback'', JObj [(''blockReason'', JStr ''SAFETY'')])]
      ''candidates'' = None"
    by simp
  from handled_defects_are_terminal [OF reached' reply', of "''key''"] defect'
  have two: "\<exists>msg. (msg = unexpected_response \<or> msg = parse_failure)
      \<and> analyze_text_with_gemini ''key'' (env_of blocked_prompt) ''some text''
          = (Inr JNull, [request ''key'' ''some text'', St_error msg])"
    by (simp add: backoff_0)
  from one two show ?thesis by (rule conjI)
qed

text \<open>
  Claim C2 says that every content or shape defect of a response received with a success
  status, be it a missing or empty candidate list, a missing text content in the first part
  of the first candidate, or a parse error on the inner JSON string, makes the client return
  a failure signal at once. The code makes no further request and no sleep, but it does not
  always return. For the body \<^verbatim>\<open>{"candidates": [{"content": null, "finishReason": "SAFETY"}]}\<close>
  under the status 200, the content is missing and \<^verbatim>\<open>result["candidates"][0]["content"]["parts"]\<close>
  raises \<^verbatim>\<open>TypeError\<close>. For a body of the expected shape whose inner text is 100000 opening
  brackets, \<^verbatim>\<open>json.loads\<close> fails on the inner JSON with \<^verbatim>\<open>RecursionError\<close>. Neither handler
  names these classes, and the exception leaves the function after the one request.
\<close>

theorem unhandled_defects_leave_by_exception:
  "requests_post (env_of null_content) 0 (payload ''some text'')
     = ok (JObj [(''candidates'',
                  JArr [JObj [(''content'', JNull), (''finishReason'', JStr ''SAFETY'')]])])
   \<and> analyze_text_with_gemini ''key'' (env_of null_content) ''some text''
     = (Inl TypeError, [request ''key'' ''some text''])
   \<and> requests_post (env_of nested_inner_json) 0 (payload ''some text'')
     = ok (good_response nested_text)
   \<and> json_loads (env_of nested_inner_json) nested_text = Recursion_error
   \<and> analyze_text_with_gemini ''key'' (env_of nested_inner_json) ''some text''
     = (Inl RecursionError, [request ''key'' ''some text''])"
proof -
  let ?pl = "payload ''some text''"
  let ?body = "JObj [(''candidates'',
     JArr [JObj [(''content'', JNull), (''finishReason'', JStr ''SAFETY'')]])]"
  have reply: "requests_post (env_of null_content) 0 ?pl = ok ?body"
    by (simp add: env_of_def null_content_def)
  have "inspect_result (json_loads (env_of null_content)) ?body = (Inl TypeError, [])"
    by (simp add: inspect_result_def first_part_text_def bind_result_def)
  with for_loop_response [OF _ requests_calls_ok [OF reply], of "''key''"]
  have one: "analyze_text_with_gemini ''key'' (env_of null_content) ''some text''
     = (Inl TypeError, [request ''key'' ''some text''])"
    by (simp add: analyze_text_with_gemini_def request_def)
  have reply': "requests_post (env_of nested_inner_json) 0 ?pl = ok (good_response nested_text)"
    by (simp add: env_of_def nested_inner_json_def)
  have head: "nested_text = CHR ''['' # replicate 99999 CHR ''[''"
  proof -
    have "(100000::nat) = Suc 99999" by simp
    then show ?thesis unfolding nested_text_def by (simp only: replicate_Suc)
  qed
  have "nested_text \<noteq> sample_text" and "nested_text \<noteq> ''{}''"
    by (simp_all add: head sample_text_def)
  then have loads: "json_loads (env_of nested_inner_json) nested_text = Recursion_error"
    by (simp add: env_of_def sample_loads_def)
  have "nested_text \<noteq> []" by (simp add: head)
  with inspect_result_text [of "good_response nested_text" nested_text
      "json_loads (env_of nested_inner_json)"] loads
  have "inspect_result (json_loads (env_of nested_inner_json)) (good_response nested_text)
      = (Inl RecursionError, [])"
    by (simp add: first_part_text_good_response)
  with for_loop_response [OF _ requests_calls_ok [OF reply'], of "''key''"]
  have two: "analyze_text_with_gemini ''key'' (env_of nested_inner_json) ''some text''
     = (Inl RecursionError, [request ''key'' ''some text''])"
    by (simp add: analyze_text_with_gemini_def request_def)
  from reply one reply' loads two show ?thesis by (intro conjI)
qed

subsection \<open>C3: too little text\<close>

text \<open>
  Claim C3. When the extractor returns \<^verbatim>\<open>None\<close>, or a text whose length after \<^verbatim>\<open>strip()\<close> is at
  most 50, the handling of the upload ends with the warning that not enough text could be
  extracted, right after the events of the extraction, and no HTTP request is among the
  events, neither of the upload's handling nor of the whole script.
\<close>

theorem insufficient_text_halts:
  assumes "fst (extract_text_from_pdf env f) = Inr None
     \<or> (\<exists>t. fst (extract_text_from_pdf env f) = Inr (Some t) \<and> length (py_strip t) \<le> 50)"
  shows "handle_upload k env f
       = (Inr (), snd (extract_text_from_pdf env f) @ [St_warning insufficient_text])
     \<and> filter is_http_post (snd (handle_upload k env f)) = []
     \<and> snd (app k env (Some f))
       = snd (app k env None)
         @ (if k = [] then [] else snd (extract_text_from_pdf env f) @ [St_warning insufficient_text])
     \<and> filter is_http_post (snd (app k env (Some f))) = []"
proof -
  from assms obtain document_text where
    dt: "fst (extract_text_from_pdf env f) = Inr document_text" "\<not> enough_text document_text"
    by (auto simp: enough_text_def)
  have halt: "handle_upload k env f
       = (Inr (), snd (extract_text_from_pdf env f) @ [St_warning insufficient_text])"
    using dt by (rule handle_upload_insufficient)
  then have quiet: "filter is_http_post (snd (handle_upload k env f)) = []"
    by (simp add: extract_events_no_request)
  have app: "snd (app k env (Some f))
       = snd (app k env None)
         @ (if k = [] then [] else snd (extract_text_from_pdf env f) @ [St_warning insufficient_text])"
    unfolding app_def io_bind_emit by (simp add: emit_def halt)
  have "filter is_http_post (snd (app k env None)) = []"
    unfolding app_def io_bind_emit by (simp add: emit_def)
  with app have "filter is_http_post (snd (app k env (Some f))) = []"
    by (simp add: extract_events_no_request)
  with halt quiet app show ?thesis by blast
qed

theorem insufficient_text_halts_witness:
  "handle_upload ''key'' (env_of_pdf short_pdf) pdf_bytes
       = (Inr (), [Doc_open, Doc_close, St_warning insufficient_text])
   \<and> handle_upload ''key'' (env_of_pdf not_a_pdf) pdf_bytes
       = (Inr (), [St_error ''Error reading PDF file: Failed to open stream'',
                   St_warning insufficient_text])"
proof -
  have short: "extract_text_from_pdf (env_of_pdf short_pdf) pdf_bytes
      = (Inr (Some (''  Page 1 '' @ [CHR 0x0A])), [Doc_open, Doc_close])"
    by (simp add: extract_text_from_pdf_def extract_try_def env_of_pdf_def short_pdf_def)
  have stripped: "length (py_strip (''  Page 1 '' @ [CHR 0x0A])) \<le> 50"
    by (simp add: py_strip_def py_isspace_def)
  have failed: "extract_text_from_pdf (env_of_pdf not_a_pdf) pdf_bytes
      = (Inr None, [St_error ''Error reading PDF file: Failed to open stream''])"
    by (simp add: extract_text_from_pdf_def extract_try_def env_of_pdf_def not_a_pdf_def)
  from insufficient_text_halts [of "env_of_pdf short_pdf" pdf_bytes "''key''"] short stripped
  have one: "handle_upload ''key'' (env_of_pdf short_pdf) pdf_bytes
       = (Inr (), [Doc_open, Doc_close, St_warning insufficient_text])"
    by simp
  from insufficient_text_halts [of "env_of_pdf not_a_pdf" pdf_bytes "''key''"] failed
  have two: "handle_upload ''key'' (env_of_pdf not_a_pdf) pdf_bytes
       = (Inr (), [St_error ''Error reading PDF file: Failed to open stream'',
                   St_warning insufficient_text])"
    by simp
  from one two show ?thesis by (rule conjI)
qed

subsection \<open>C4: the text is cut at 15000 characters\<close>

text \<open>
  Claim C4. For a text of more than 15000 characters the client keeps exactly its first
  15000 characters, cut at that position whatever stands there. The payload is the fixed
  instruction, these 15000 characters unchanged, and the closing double quote, beside the
  generation configuration; and every HTTP request of a run, of which there are between one
  and three, carries this payload.
\<close>

theorem payload_carries_first_15000_characters:
  assumes "15000 < length input"
  shows "length (take 15000 input) = 15000
     \<and> payload input =
         JObj [
           (''contents'', JArr [JObj [(''parts'', JArr [JObj [
              (''text'', JStr (instruction @ take 15000 input @ [CHR 0x22]))]])]]),
           (''generationConfig'', JObj [
              (''responseMimeType'', JStr ''application/json''),
              (''responseSchema'', response_schema)])]
     \<and> (\<exists>n. 1 \<le> n \<and> n \<le> 3
           \<and> filter is_http_post (snd (analyze_text_with_gemini k env input))
               = replicate n (Http_post (API_URL k) headers (payload input)))"
proof (intro conjI)
  from assms show "length (take 15000 input) = 15000" by simp
  show "payload input =
         JObj [
           (''contents'', JArr [JObj [(''parts'', JArr [JObj [
              (''text'', JStr (instruction @ take 15000 input @ [CHR 0x22]))]])]]),
           (''generationConfig'', JObj [
              (''responseMimeType'', JStr ''application/json''),
              (''responseSchema'', response_schema)])]"
    by (simp add: payload_def prompt_def)
  show "\<exists>n. 1 \<le> n \<and> n \<le> 3
           \<and> filter is_http_post (snd (analyze_text_with_gemini k env input))
               = replicate n (Http_post (API_URL k) headers (payload input))"
    unfolding analyze_text_with_gemini_def by (rule requests_of_run)
qed

theorem payload_carries_first_15000_characters_witness:
  "length (take 15000 long_text) = 15000
   \<and> payload long_text =
         JObj [
           (''contents'', JArr [JObj [(''parts'', JArr [JObj [
              (''text'', JStr (instruction @ replicate 15000 CHR ''a'' @ [CHR 0x22]))]])]]),
           (''generationConfig'', JObj [
              (''responseMimeType'', JStr ''application/json''),
              (''responseSchema'', response_schema)])]"
proof -
  have long: "15000 < length long_text" by (simp add: long_text_def)
  have first: "take 15000 long_text = replicate 15000 CHR ''a''" by (simp add: long_text_def)
  from payload_carries_first_15000_characters [OF long, of "''key''" "env_of flaky"] first
  show ?thesis by simp
qed

subsection \<open>C5: a failed extraction is signalled\<close>

text \<open>
  Claim C5. When the PDF library raises, be it on opening the bytes or on a page after some
  pages were read, the extractor shows the message \<open>Error reading PDF file: \<close> followed by the
  text of the exception and returns \<^verbatim>\<open>None\<close>; when no page raises it returns the texts of the
  pages, concatenated in order. In every case it returns: no exception leaves the function.
\<close>

theorem extraction_failure_is_signalled:
  "(fitz_open env pdf_file = Inl msg \<longrightarrow>
      extract_text_from_pdf env pdf_file
        = (Inr None, [St_error (''Error reading PDF file: '' @ msg)]))
   \<and> (fitz_open env pdf_file = Inr (map Inr ts @ Inl msg # rest) \<longrightarrow>
      extract_text_from_pdf env pdf_file
        = (Inr None, [Doc_open, St_error (''Error reading PDF file: '' @ msg)]))
   \<and> (fitz_open env pdf_file = Inr (map Inr ts) \<longrightarrow>
      extract_text_from_pdf env pdf_file = (Inr (Some (concat ts)), [Doc_open, Doc_close]))
   \<and> (\<exists>r. fst (extract_text_from_pdf env pdf_file) = Inr r)"
  by (simp add: extract_text_from_pdf_def extract_try_def read_pages_texts read_pages_raises
      split: sum.splits)

theorem extraction_failure_is_signalled_witness:
  "extract_text_from_pdf (env_of_pdf not_a_pdf) pdf_bytes
     = (Inr None, [St_error ''Error reading PDF file: Failed to open stream''])
   \<and> extract_text_from_pdf (env_of_pdf second_page_fails_pdf) pdf_bytes
     = (Inr None, [Doc_open, St_error ''Error reading PDF file: cannot load page''])
   \<and> extract_text_from_pdf (env_of_pdf short_pdf) pdf_bytes
     = (Inr (Some (''  Page 1 '' @ [CHR 0x0A])), [Doc_open, Doc_close])"
proof -
  have a: "fitz_open (env_of_pdf not_a_pdf) pdf_bytes = Inl ''Failed to open stream''"
    by (simp add: env_of_pdf_def not_a_pdf_def)
  have b: "fitz_open (env_of_pdf second_page_fails_pdf) pdf_bytes
      = Inr (map Inr [''Page 1''] @ Inl ''cannot load page'' # [Inr ''Page 3''])"
    by (simp add: env_of_pdf_def second_page_fails_pdf_def)
  from extraction_failure_is_signalled [where env = "env_of_pdf not_a_pdf"
      and pdf_file = pdf_bytes and msg = "''Failed to open stream''"] a
  have one: "extract_text_from_pdf (env_of_pdf not_a_pdf) pdf_bytes
     = (Inr None, [St_error ''Error reading PDF file: Failed to open stream''])"
    by simp
  from extraction_failure_is_signalled [where env = "env_of_pdf second_page_fails_pdf"
      and pdf_file = pdf_bytes and msg = "''cannot load page''" and ts = "[''Page 1'']"
      and rest = "[Inr ''Page 3'']"] b
  have two: "extract_text_from_pdf (env_of_pdf second_page_fails_pdf) pdf_bytes
     = (Inr None, [Doc_open, St_error ''Error reading PDF file: cannot load page''])"
    by simp
  have c: "fitz_open (env_of_pdf short_pdf) pdf_bytes = Inr (map Inr [''  Page 1 '', [CHR 0x0A]])"
    by (simp add: env_of_pdf_def short_pdf_def)
  from extraction_failure_is_signalled [where env = "env_of_pdf short_pdf"
      and pdf_file = pdf_bytes and ts = "[''  Page 1 '', [CHR 0x0A]]"] c
  have three: "extract_text_from_pdf (env_of_pdf short_pdf) pdf_bytes
     = (Inr (Some (''  Page 1 '' @ [CHR 0x0A])), [Doc_open, Doc_close])"
    by simp
  from one two three show ?thesis by blast
qed

subsection \<open>C6: the document handle\<close>

text \<open>
  Claim C6 says that the document handle is closed on every path of the extractor, be it
  success or failure, before the function returns. The code closes the handle after the
  loop over the pages only. For a document that opens and whose only page raises, the
  handler shows the error and the function returns \<^verbatim>\<open>None\<close> without having called
  \<^verbatim>\<open>pdf_document.close()\<close>: the events are the opening and the error message.
\<close>

theorem handle_left_open_when_a_page_fails:
  "extract_text_from_pdf (env_of_pdf unreadable_page_pdf) pdf_bytes
     = (Inr None, [Doc_open, St_error ''Error reading PDF file: document closed or encrypted''])
   \<and> Doc_close \<notin> set (snd (extract_text_from_pdf (env_of_pdf unreadable_page_pdf) pdf_bytes))"
  by (simp add: extract_text_from_pdf_def extract_try_def env_of_pdf_def unreadable_page_pdf_def)

subsection \<open>C7: the sentiment color\<close>

text \<open>
  Claim C7. The color the presenter gives a sentiment string depends on the string up to
  case only: a string equal to \<open>positive\<close> up to case is shown in green, one equal to
  \<open>negative\<close> up to case in red, and every other string, \<open>neutral\<close> among them, in orange; two
  strings equal up to case get the same color, so \<open>Positive\<close>, \<open>POSITIVE\<close> and \<open>positive\<close> do.
  The presenter writes the sentiment in that color.
\<close>

theorem sentiment_color_up_to_case:
  "(caseless_eq s ''positive'' \<longrightarrow> sentiment_color s = ''green'')
   \<and> (caseless_eq s ''negative'' \<longrightarrow> sentiment_color s = ''red'')
   \<and> (\<not> caseless_eq s ''positive'' \<and> \<not> caseless_eq s ''negative'' \<longrightarrow>
        sentiment_color s = ''orange'')
   \<and> (caseless_eq s t \<longrightarrow> sentiment_color s = sentiment_color t)
   \<and> sentiment_color ''Positive'' = sentiment_color ''positive''
   \<and> sentiment_color ''POSITIVE'' = sentiment_color ''positive''
   \<and> sentiment_color ''positive'' = ''green''
   \<and> sentiment_color ''neutral'' = ''orange''
   \<and> show_sentiment (JStr s) = emit [St_write_html (colored_html (sentiment_color s) s)]"
proof (intro conjI impI)
  assume "caseless_eq s ''positive''"
  then show "sentiment_color s = ''green''"
    by (simp add: caseless_eq_lower py_lower_positive sentiment_color_def)
next
  assume "caseless_eq s ''negative''"
  then show "sentiment_color s = ''red''"
    by (simp add: caseless_eq_lower py_lower_negative sentiment_color_def)
next
  assume "\<not> caseless_eq s ''positive'' \<and> \<not> caseless_eq s ''negative''"
  then show "sentiment_color s = ''orange''"
    by (simp add: caseless_eq_lower py_lower_positive py_lower_negative sentiment_color_def)
next
  assume "caseless_eq s t"
  then show "sentiment_color s = sentiment_color t"
    by (simp add: caseless_eq_lower sentiment_color_def)
next
  show "sentiment_color ''Positive'' = sentiment_color ''positive''"
    by (simp add: sentiment_color_def py_lower_def py_lower_char_def char_of_eq_iff)
  show "sentiment_color ''POSITIVE'' = sentiment_color ''positive''"
    by (simp add: sentiment_color_def py_lower_def py_lower_char_def char_of_eq_iff)
  show "sentiment_color ''positive'' = ''green''"
    by (simp add: sentiment_color_def py_lower_positive)
  show "sentiment_color ''neutral'' = ''orange''"
    by (simp add: sentiment_color_def py_lower_def py_lower_char_def char_of_eq_iff)
  show "show_sentiment (JStr s) = emit [St_write_html (colored_html (sentiment_color s) s)]"
    by (simp add: show_sentiment_def)
qed

theorem sentiment_color_up_to_case_witness:
  "sentiment_color ''PoSiTiVe'' = ''green''
   \<and> sentiment_color ''NEGATIVE'' = ''red''
   \<and> sentiment_color ''Mixed'' = ''orange''
   \<and> sentiment_color ''Neutral'' = sentiment_color ''NEUTRAL''"
proof -
  have a: "caseless_eq ''PoSiTiVe'' ''positive''"
    by (simp add: caseless_eq_def py_lower_char_def char_of_eq_iff)
  have b: "caseless_eq ''NEGATIVE'' ''negative''"
    by (simp add: caseless_eq_def py_lower_char_def char_of_eq_iff)
  have c: "\<not> caseless_eq ''Mixed'' ''positive'' \<and> \<not> caseless_eq ''Mixed'' ''negative''"
    by (simp add: caseless_eq_def)
  have d: "caseless_eq ''Neutral'' ''NEUTRAL''"
    by (simp add: caseless_eq_def py_lower_char_def char_of_eq_iff eq_char_of_iff)
  from sentiment_color_up_to_case [of "''PoSiTiVe''"] a
  have one: "sentiment_color ''PoSiTiVe'' = ''green''" by blast
  from sentiment_color_up_to_case [of "''NEGATIVE''"] b
  have two: "sentiment_color ''NEGATIVE'' = ''red''" by blast
  from sentiment_color_up_to_case [of "''Mixed''"] c
  have three: "sentiment_color ''Mixed'' = ''orange''" by blast
  from sentiment_color_up_to_case [of "''Neutral''" "''NEUTRAL''"] d
  have four: "sentiment_color ''Neutral'' = sentiment_color ''NEUTRAL''" by blast
  from one two three four show ?thesis by blast
qed

subsection \<open>C8: the keywords\<close>




subsection \<open>C9: only the first 15000 characters matter\<close>

text \<open>
  Claim C9. Two texts with the same first 15000 characters give the same payload, and with
  it the same run of the client against the same environment: what follows the first 15000
  characters has no influence. The payload asks for the response schema whose required
  fields are \<open>summary\<close>, \<open>keywords\<close>, \<open>sentiment\<close> and \<open>language\<close>.
\<close>

theorem payload_depends_on_first_15000_characters:
  assumes "take 15000 a = take 15000 b"
  shows "payload a = payload b
     \<and> analyze_text_with_gemini k env a = analyze_text_with_gemini k env b
     \<and> bind_result (subscript_key (payload a) ''generationConfig'') (\<lambda>config.
          bind_result (subscript_key config ''responseSchema'') (\<lambda>schema.
            subscript_key schema ''required''))
        = Inr (JArr [JStr ''summary'', JStr ''keywords'', JStr ''sentiment'', JStr ''language''])"
proof -
  from assms have same: "payload a = payload b" by (simp add: payload_def)
  then have "analyze_text_with_gemini k env a = analyze_text_with_gemini k env b"
    by (simp add: analyze_text_with_gemini_def)
  moreover have "bind_result (subscript_key (payload a) ''generationConfig'') (\<lambda>config.
          bind_result (subscript_key config ''responseSchema'') (\<lambda>schema.
            subscript_key schema ''required''))
        = Inr (JArr [JStr ''summary'', JStr ''keywords'', JStr ''sentiment'', JStr ''language''])"
    by (simp add: payload_def response_schema_def bind_result_def)
  ultimately show ?thesis using same by blast
qed

theorem payload_depends_on_first_15000_characters_witness:
  "payload long_text = payload other_long_text
   \<and> analyze_text_with_gemini ''key'' (env_of flaky) long_text
     = analyze_text_with_gemini ''key'' (env_of flaky) other_long_text"
proof -
  have "take 15000 long_text = take 15000 other_long_text"
    by (simp add: long_text_def other_long_text_def)
  from payload_depends_on_first_15000_characters [OF this, of "''key''" "env_of flaky"]
  show ?thesis by blast
qed

subsection \<open>C10: one response per run\<close>

text \<open>
  What holds of every run of the analysis client. At most one of the attempts it made got
  a response, that is a status code that is not an error with a body that parsed as JSON.
  The sleeps of the run are \<open>Sleep 1\<close> after a retried attempt 0 and \<open>Sleep 2\<close> after a
  retried attempt 1, and no others. When attempt \<open>i\<close> gets a response, the run ends in that
  attempt: after the request of attempt \<open>i\<close> comes at most one error message, no request and
  no sleep. When moreover the body has the JSON types of the response (\<open>typed_response\<close>),
  the function returns \<^verbatim>\<open>None\<close> or the value decoded from the text of the first part, unless
  \<^verbatim>\<open>json.loads\<close> raises \<^verbatim>\<open>RecursionError\<close> or \<^verbatim>\<open>ValueError\<close> on that text, which then leaves the
  function.
\<close>

theorem one_success_response_per_run:
  "length (filter is_response
     (map (\<lambda>j. requests_calls env (payload input) j)
        [0..<length (filter is_http_post (snd (analyze_text_with_gemini k env input)))])) \<le> 1
   \<and> filter is_sleep (snd (analyze_text_with_gemini k env input))
       = map (\<lambda>j. Sleep (2 ^ j)) [0..<leading_failures env (payload input)]
   \<and> leading_failures env (payload input) \<le> 2
   \<and> (i < 3 \<and> (\<forall>j<i. is_retried (requests_calls env (payload input) j))
        \<and> requests_calls env (payload input) i = Inr result \<longrightarrow>
        (\<exists>evs. snd (analyze_text_with_gemini k env input)
                 = backoff (request k input) i @ request k input # evs
               \<and> list_all is_st_error evs \<and> length evs \<le> 1)
        \<and> (typed_response result \<longrightarrow>
             fst (analyze_text_with_gemini k env input) = Inr JNull
             \<or> (\<exists>s v. first_part_text result = Inr (JStr s) \<and> json_loads env s = Decoded v
                   \<and> fst (analyze_text_with_gemini k env input) = Inr v)
             \<or> (\<exists>s. first_part_text result = Inr (JStr s) \<and> json_loads env s = Recursion_error
                   \<and> fst (analyze_text_with_gemini k env input) = Inl RecursionError)
             \<or> (\<exists>s. first_part_text result = Inr (JStr s) \<and> json_loads env s = Value_error
                   \<and> fst (analyze_text_with_gemini k env input) = Inl ValueError)))"
proof (intro conjI impI)
  show "length (filter is_response
     (map (\<lambda>j. requests_calls env (payload input) j)
        [0..<length (filter is_http_post (snd (analyze_text_with_gemini k env input)))])) \<le> 1"
    unfolding analyze_text_with_gemini_def by (rule consumed_responses)
  show "filter is_sleep (snd (analyze_text_with_gemini k env input))
       = map (\<lambda>j. Sleep (2 ^ j)) [0..<leading_failures env (payload input)]"
    unfolding analyze_text_with_gemini_def by (rule sleeps_of_run)
  show "leading_failures env (payload input) \<le> 2" by (rule leading_failures_le)
next
  assume "i < 3 \<and> (\<forall>j<i. is_retried (requests_calls env (payload input) j))
        \<and> requests_calls env (payload input) i = Inr result"
  then have i: "i < 3"
    and before: "\<forall>j<i. is_retried (requests_calls env (payload input) j)"
    and here: "requests_calls env (payload input) i = Inr result"
    by blast+
  from response_ends_run [OF i before here, of k]
  show "\<exists>evs. snd (analyze_text_with_gemini k env input)
                 = backoff (request k input) i @ request k input # evs
               \<and> list_all is_st_error evs \<and> length evs \<le> 1"
    by (simp add: analyze_text_with_gemini_def request_def)
next
  assume "i < 3 \<and> (\<forall>j<i. is_retried (requests_calls env (payload input) j))
        \<and> requests_calls env (payload input) i = Inr result"
    and typed: "typed_response result"
  then have i: "i < 3"
    and before: "\<forall>j<i. is_retried (requests_calls env (payload input) j)"
    and here: "requests_calls env (payload input) i = Inr result"
    by blast+
  from typed_response_returns [OF i before here typed, of k]
  show "fst (analyze_text_with_gemini k env input) = Inr JNull
             \<or> (\<exists>s v. first_part_text result = Inr (JStr s) \<and> json_loads env s = Decoded v
                   \<and> fst (analyze_text_with_gemini k env input) = Inr v)
             \<or> (\<exists>s. first_part_text result = Inr (JStr s) \<and> json_loads env s = Recursion_error
                   \<and> fst (analyze_text_with_gemini k env input) = Inl RecursionError)
             \<or> (\<exists>s. first_part_text result = Inr (JStr s) \<and> json_loads env s = Value_error
                   \<and> fst (analyze_text_with_gemini k env input) = Inl ValueError)"
    by (simp add: analyze_text_with_gemini_def)
qed

theorem one_success_response_per_run_witness:
  "(\<exists>evs. snd (analyze_text_with_gemini ''key'' (env_of flaky) ''some text'')
            = backoff (request ''key'' ''some text'') 2 @ request ''key'' ''some text'' # evs
          \<and> list_all is_st_error evs \<and> length evs \<le> 1)
   \<and> (fst (analyze_text_with_gemini ''key'' (env_of flaky) ''some text'') = Inr JNull
       \<or> (\<exists>s v. first_part_text (good_response sample_text) = Inr (JStr s)
             \<and> json_loads (env_of flaky) s = Decoded v
             \<and> fst (analyze_text_with_gemini ''key'' (env_of flaky) ''some text'') = Inr v)
       \<or> (\<exists>s. first_part_text (good_response sample_text) = Inr (JStr s)
             \<and> json_loads (env_of flaky) s = Recursion_error
             \<and> fst (analyze_text_with_gemini ''key'' (env_of flaky) ''some text'') = Inl RecursionError)
       \<or> (\<exists>s. first_part_text (good_response sample_text) = Inr (JStr s)
             \<and> json_loads (env_of flaky) s = Value_error
             \<and> fst (analyze_text_with_gemini ''key'' (env_of flaky) ''some text'') = Inl ValueError))"
proof -
  have reached: "(2::nat) < 3"
    "\<forall>j<2. is_retried (requests_calls (env_of flaky) (payload ''some text'') j)"
    by (simp_all add: requests_calls_def env_of_def flaky_def)
  have reply: "requests_calls (env_of flaky) (payload ''some text'') 2
      = Inr (good_response sample_text)"
    by (rule requests_calls_ok) (simp add: env_of_def flaky_def)
  have typed: "typed_response (good_response sample_text)"
    by (simp add: good_response_def)
  from one_success_response_per_run [where k = "''key''" and env = "env_of flaky"
      and input = "''some text''" and i = 2 and result = "good_response sample_text"]
    reached reply typed
  show ?thesis by blast
qed

text \<open>
  Claim C10 says that once an attempt receives a success response whose body parses as
  JSON, the function returns during that attempt, either the decoded result or \<^verbatim>\<open>None\<close>, with
  no further request and no further sleep, and that sleeps follow the failures of attempts 0
  and 1 only. Requests and sleeps are as the claim says. The return is not: for the body
  \<^verbatim>\<open>{"candidates": null}\<close>, received at attempt 0, \<^verbatim>\<open>result["candidates"][0]\<close> raises
  \<^verbatim>\<open>TypeError\<close>, which neither handler names, and the exception leaves the function after
  the one request.
\<close>

theorem null_candidates_leave_by_TypeError:
  "requests_post (env_of null_candidates) 0 (payload ''some text'')
     = Http_response \<lparr>status_code = 200, http_error_msg = [],
                      json_body = Decoded (JObj [(''candidates'', JNull)])\<rparr>
   \<and> requests_calls (env_of null_candidates) (payload ''some text'') 0
     = Inr (JObj [(''candidates'', JNull)])
   \<and> analyze_text_with_gemini ''key'' (env_of null_candidates) ''some text''
     = (Inl TypeError, [request ''key'' ''some text''])"
proof -
  have reply: "requests_post (env_of null_candidates) 0 (payload ''some text'')
     = ok (JObj [(''candidates'', JNull)])"
    by (simp add: env_of_def null_candidates_def)
  note calls = requests_calls_ok [OF reply]
  have "inspect_result (json_loads (env_of null_candidates)) (JObj [(''candidates'', JNull)])
     = (Inl TypeError, [])"
    by (simp add: inspect_result_def first_part_text_def bind_result_def)
  with for_loop_response [OF _ calls, of "''key''"]
  have "analyze_text_with_gemini ''key'' (env_of null_candidates) ''some text''
     = (Inl TypeError, [request ''key'' ''some text''])"
    by (simp add: analyze_text_with_gemini_def request_def)
  with reply calls show ?thesis by (simp add: ok_def)
qed

end
